theory Spec2Isabelle
  imports Main "HOL-Library.Word"
begin

section \<open>The policy data model (types.go)\<close>

text \<open>
  Go's \<^verbatim>\<open>int32\<close> is a 32-bit two's complement word: \<open>+\<close> and \<open>-\<close> wrap around,
  \<open>sint\<close> reads the signed value. A nil-able pointer field (\<^verbatim>\<open>*int32\<close>, \<^verbatim>\<open>*HPASpec\<close>)
  is an \<open>option\<close>. A Go \<^verbatim>\<open>map[string]string\<close> is a partial function on strings.
\<close>

type_synonym int32 = "32 word"
type_synonym labels = "string \<rightharpoonup> string"

record AppReference =
  app_Name :: string
  app_Namespace :: string
  app_Port :: int32
  app_ContainerPort :: int32
  app_Image :: string

record GatewayReference =
  gw_Name :: string
  gw_Namespace :: string
  gw_Hostname :: string

record MatchSpec =
  m_Path :: string
  m_Service :: string
  m_Method :: string

record ResourceSpec =
  CPULimit :: string
  CPURequest :: string
  MemLimit :: string
  MemRequest :: string

record HPASpec =
  hpa_Min :: int32
  hpa_Max :: int32
  CPUTarget :: "int32 option"
  MemoryTarget :: "int32 option"

record EndpointSpec =
  ep_ID :: string
  ep_Type :: string
  ep_Match :: MatchSpec
  ep_Strategy :: string
  ep_CanaryWeight :: "int32 option"
  ep_Resources :: "ResourceSpec option"
  ep_HPA :: "HPASpec option"
  ep_Replicas :: "int32 option"

record EndpointPolicySpec =
  AppRef :: AppReference
  GatewayRef :: GatewayReference
  Endpoints :: "EndpointSpec list"

section \<open>Errors, status and the policy object\<close>

text \<open>
  Errors are values. An error of the platform's API carries no text of its own here;
  \<open>MainServiceMissing\<close> is the wrapped error of \<^verbatim>\<open>validateMainServiceExists\<close>.
  Status messages are structured: the format string of the source with its arguments,
  not the rendered text (the rendering of platform errors is not part of the repository).
  Timestamps are left out.
\<close>

datatype error =
    NotFound
  | AlreadyExists
  | ApiFailure
  | ImageRequired
  | GatewayNameRequired
  | MainServiceMissing string error
  | OwnerReferenceError

datatype path_elem = Child string | Index nat

datatype bad_value = IntValue int32 | StrValue string

datatype field_error =
    Required "path_elem list" string
  | Invalid "path_elem list" bad_value string
  | Duplicate "path_elem list" bad_value

datatype condition_message =
    ValidationText "field_error list"
  | AllReadyText nat
  | NotReadyText nat nat

datatype endpoint_message =
    NoMessage
  | DeploymentError error
  | ServiceError error
  | RouteError error
  | HPAError error

record Condition =
  cond_Type :: string
  cond_Status :: string
  cond_ObservedGeneration :: int
  cond_Reason :: string
  cond_Message :: condition_message

record EndpointStatus =
  st_ID :: string
  st_Ready :: bool
  st_DeploymentName :: string
  st_ServiceName :: string
  st_RouteName :: string
  st_Message :: endpoint_message

record EndpointPolicyStatus =
  EndpointCount :: nat
  Conditions :: "Condition list"
  EndpointStatuses :: "EndpointStatus list"

record EndpointPolicy =
  pol_Name :: string
  pol_Namespace :: string
  pol_Generation :: int
  Spec :: EndpointPolicySpec
  Status :: EndpointPolicyStatus

section \<open>Child objects of the platform\<close>

text \<open>
  The fields of the platform's object types that the builders set, and \<open>svc_ClusterIP\<close>
  as one field of a Service's spec that the platform assigns and no builder sets.
\<close>

type_synonym quantity = string

record ResourceRequirements =
  Limits :: "string \<rightharpoonup> quantity"
  Requests :: "string \<rightharpoonup> quantity"

record ContainerPort =
  cp_Name :: string
  cp_ContainerPort :: int32
  cp_Protocol :: string

record EnvVar =
  env_Name :: string
  env_Value :: string

record Container =
  c_Name :: string
  c_Image :: string
  c_Ports :: "ContainerPort list"
  c_Env :: "EnvVar list"
  c_Resources :: ResourceRequirements

record DeploymentSpec =
  dep_Replicas :: "int32 option"
  dep_Selector :: labels
  dep_TemplateLabels :: labels
  dep_Containers :: "Container list"

record ServicePort =
  sp_Name :: string
  sp_Port :: int32
  sp_TargetPort :: int32
  sp_Protocol :: string

record ServiceSpec =
  svc_Type :: string
  svc_Selector :: labels
  svc_Ports :: "ServicePort list"
  svc_ClusterIP :: string

record BackendRef =
  br_Kind :: "string option"
  br_Name :: string
  br_Port :: "int32 option"
  br_Weight :: "int32 option"

record ParentReference =
  pr_Kind :: "string option"
  pr_Name :: string
  pr_Namespace :: "string option"

record HTTPPathMatch =
  pm_Type :: "string option"
  pm_Value :: "string option"

record HTTPRouteMatch =
  hm_Path :: "HTTPPathMatch option"

record HTTPRouteRule =
  hr_Matches :: "HTTPRouteMatch list"
  hr_BackendRefs :: "BackendRef list"

record HTTPRouteSpec =
  http_ParentRefs :: "ParentReference list"
  http_Hostnames :: "string list"
  http_Rules :: "HTTPRouteRule list"

record GRPCMethodMatch =
  gm_Service :: "string option"
  gm_Method :: "string option"

record GRPCRouteMatch =
  grm_Method :: "GRPCMethodMatch option"

record GRPCRouteRule =
  gr_Matches :: "GRPCRouteMatch list"
  gr_BackendRefs :: "BackendRef list"

record GRPCRouteSpec =
  grpc_ParentRefs :: "ParentReference list"
  grpc_Hostnames :: "string list"
  grpc_Rules :: "GRPCRouteRule list"

record CrossVersionObjectReference =
  ref_APIVersion :: string
  ref_Kind :: string
  ref_Name :: string

record MetricTarget =
  mt_Type :: string
  mt_AverageUtilization :: "int32 option"

record ResourceMetricSource =
  rms_Name :: string
  rms_Target :: MetricTarget

record MetricSpec =
  ms_Type :: string
  ms_Resource :: "ResourceMetricSource option"

record HorizontalPodAutoscalerSpec =
  ScaleTargetRef :: CrossVersionObjectReference
  MinReplicas :: "int32 option"
  MaxReplicas :: int32
  Metrics :: "MetricSpec list"

datatype kind = Deployment | Service | HTTPRoute | GRPCRoute | HorizontalPodAutoscaler

datatype child_spec =
    DepSpec DeploymentSpec
  | SvcSpec ServiceSpec
  | HTTPSpec HTTPRouteSpec
  | GRPCSpec GRPCRouteSpec
  | HPAObjSpec HorizontalPodAutoscalerSpec

text \<open>
  One child object: its kind, its metadata (name, namespace, labels, the controlling
  owner set by \<^verbatim>\<open>SetControllerReference\<close>) and its spec.
\<close>

record child =
  obj_Kind :: kind
  obj_Name :: string
  obj_Namespace :: string
  obj_Labels :: labels
  obj_Owner :: "string option"
  obj_Spec :: child_spec

section \<open>Naming and labelling (reconciler.go)\<close>

definition endpointResourceName :: "EndpointPolicy \<Rightarrow> EndpointSpec \<Rightarrow> string" where
  "endpointResourceName policy endpoint =
     app_Name (AppRef (Spec policy)) @ ''-'' @ ep_ID endpoint"

definition endpointServiceName :: "EndpointPolicy \<Rightarrow> EndpointSpec \<Rightarrow> string" where
  "endpointServiceName policy endpoint =
     app_Name (AppRef (Spec policy)) @ ''-'' @ ep_ID endpoint @ ''-svc''"

definition mainServiceName :: "EndpointPolicy \<Rightarrow> string" where
  "mainServiceName policy = app_Name (AppRef (Spec policy)) @ ''-svc''"

definition generateLabels :: "EndpointPolicy \<Rightarrow> EndpointSpec \<Rightarrow> labels" where
  "generateLabels policy endpoint =
     [''app.kubernetes.io/name'' \<mapsto> app_Name (AppRef (Spec policy)),
      ''app.kubernetes.io/component'' \<mapsto> ep_ID endpoint,
      ''app.kubernetes.io/managed-by'' \<mapsto> ''endpoint-scaler'',
      ''endpointscaler.io/policy'' \<mapsto> pol_Name policy,
      ''endpointscaler.io/endpoint'' \<mapsto> ep_ID endpoint]"

text \<open>Reading a Go map: a missing key reads as the zero value.\<close>

definition labelValue :: "labels \<Rightarrow> string \<Rightarrow> string" where
  "labelValue m k = (case m k of None \<Rightarrow> '''' | Some v \<Rightarrow> v)"

definition isDesired :: "(string \<rightharpoonup> bool) \<Rightarrow> string \<Rightarrow> bool" where
  "isDesired m k = (case m k of None \<Rightarrow> False | Some b \<Rightarrow> b)"

section \<open>Route backends (route.go)\<close>

definition StrategyCanary :: string where
  "StrategyCanary = ''canary''"

definition StrategyPrimary :: string where
  "StrategyPrimary = ''primary''"

definition backend :: "string \<Rightarrow> int32 \<Rightarrow> int32 \<Rightarrow> BackendRef" where
  "backend name port weight =
     \<lparr>br_Kind = Some ''Service'', br_Name = name, br_Port = Some port, br_Weight = Some weight\<rparr>"

text \<open>
  \<^verbatim>\<open>buildHTTPBackendRefs\<close> and \<^verbatim>\<open>buildGRPCBackendRefs\<close> differ in the port they
  take when \<^verbatim>\<open>appRef.port\<close> is 0 (80 and 9090); the source repeats the rest, and so
  does the model.
\<close>

definition buildHTTPBackendRefs :: "EndpointPolicy \<Rightarrow> EndpointSpec \<Rightarrow> BackendRef list" where
  "buildHTTPBackendRefs policy endpoint =
     (let mainSvc = mainServiceName policy;
          endpointSvc = endpointServiceName policy endpoint;
          servicePort = (if app_Port (AppRef (Spec policy)) = 0 then 80
                         else app_Port (AppRef (Spec policy)));
          strategy = (if ep_Strategy endpoint = '''' then StrategyPrimary else ep_Strategy endpoint)
      in if strategy = StrategyCanary then
           (let canaryWeight = (case ep_CanaryWeight endpoint of None \<Rightarrow> 5 | Some w \<Rightarrow> w);
                mainWeight = 100 - canaryWeight
            in [backend mainSvc servicePort mainWeight, backend endpointSvc servicePort canaryWeight])
         else if strategy = StrategyPrimary then [backend endpointSvc servicePort 100]
         else [backend endpointSvc servicePort 100])"

definition buildGRPCBackendRefs :: "EndpointPolicy \<Rightarrow> EndpointSpec \<Rightarrow> BackendRef list" where
  "buildGRPCBackendRefs policy endpoint =
     (let mainSvc = mainServiceName policy;
          endpointSvc = endpointServiceName policy endpoint;
          servicePort = (if app_Port (AppRef (Spec policy)) = 0 then 9090
                         else app_Port (AppRef (Spec policy)));
          strategy = (if ep_Strategy endpoint = '''' then StrategyPrimary else ep_Strategy endpoint)
      in if strategy = StrategyCanary then
           (let canaryWeight = (case ep_CanaryWeight endpoint of None \<Rightarrow> 5 | Some w \<Rightarrow> w);
                mainWeight = 100 - canaryWeight
            in [backend mainSvc servicePort mainWeight, backend endpointSvc servicePort canaryWeight])
         else if strategy = StrategyPrimary then [backend endpointSvc servicePort 100]
         else [backend endpointSvc servicePort 100])"

section \<open>Route builders (route.go)\<close>

definition parentRefOf :: "EndpointPolicy \<Rightarrow> ParentReference" where
  "parentRefOf policy =
     \<lparr>pr_Kind = Some ''Gateway'',
      pr_Name = gw_Name (GatewayRef (Spec policy)),
      pr_Namespace = (if gw_Namespace (GatewayRef (Spec policy)) \<noteq> ''''
                      then Some (gw_Namespace (GatewayRef (Spec policy))) else None)\<rparr>"

definition hostnamesOf :: "EndpointPolicy \<Rightarrow> string list" where
  "hostnamesOf policy =
     (if gw_Hostname (GatewayRef (Spec policy)) \<noteq> ''''
      then [gw_Hostname (GatewayRef (Spec policy))] else [])"

definition buildHTTPRoute :: "EndpointPolicy \<Rightarrow> EndpointSpec \<Rightarrow> child" where
  "buildHTTPRoute policy endpoint =
     (let name = endpointResourceName policy endpoint;
          labels = generateLabels policy endpoint;
          parentRef = parentRefOf policy;
          path = m_Path (ep_Match endpoint);
          backendRefs = buildHTTPBackendRefs policy endpoint
      in \<lparr>obj_Kind = HTTPRoute, obj_Name = name, obj_Namespace = pol_Namespace policy,
           obj_Labels = labels, obj_Owner = None,
           obj_Spec = HTTPSpec
             \<lparr>http_ParentRefs = [parentRef],
              http_Hostnames = hostnamesOf policy,
              http_Rules =
                [\<lparr>hr_Matches =
                    [\<lparr>hm_Path = Some \<lparr>pm_Type = Some ''PathPrefix'', pm_Value = Some path\<rparr>\<rparr>],
                  hr_BackendRefs = backendRefs\<rparr>]\<rparr>\<rparr>)"

definition buildGRPCRoute :: "EndpointPolicy \<Rightarrow> EndpointSpec \<Rightarrow> child" where
  "buildGRPCRoute policy endpoint =
     (let name = endpointResourceName policy endpoint;
          labels = generateLabels policy endpoint;
          parentRef = parentRefOf policy;
          grpcService =
            \<lparr>gm_Service = (if m_Service (ep_Match endpoint) \<noteq> ''''
                            then Some (m_Service (ep_Match endpoint)) else None),
             gm_Method = (if m_Method (ep_Match endpoint) \<noteq> ''''
                           then Some (m_Method (ep_Match endpoint)) else None)\<rparr>;
          backendRefs = buildGRPCBackendRefs policy endpoint
      in \<lparr>obj_Kind = GRPCRoute, obj_Name = name, obj_Namespace = pol_Namespace policy,
           obj_Labels = labels, obj_Owner = None,
           obj_Spec = GRPCSpec
             \<lparr>grpc_ParentRefs = [parentRef],
              grpc_Hostnames = hostnamesOf policy,
              grpc_Rules =
                [\<lparr>gr_Matches = [\<lparr>grm_Method = Some grpcService\<rparr>],
                  gr_BackendRefs = backendRefs\<rparr>]\<rparr>\<rparr>)"

section \<open>Workload builder (deployment.go)\<close>

text \<open>
  \<^verbatim>\<open>resource.ParseQuantity\<close> belongs to the platform's library: the functions that call
  it take it as the parameter \<open>pq\<close> (\<open>Inl\<close> its error text, \<open>Inr\<close> the quantity).
\<close>

type_synonym parser = "string \<Rightarrow> string + quantity"

definition setLimit :: "string \<Rightarrow> quantity \<Rightarrow> ResourceRequirements \<Rightarrow> ResourceRequirements" where
  "setLimit k q reqs = reqs\<lparr>Limits := (Limits reqs)(k \<mapsto> q)\<rparr>"

definition setRequest :: "string \<Rightarrow> quantity \<Rightarrow> ResourceRequirements \<Rightarrow> ResourceRequirements" where
  "setRequest k q reqs = reqs\<lparr>Requests := (Requests reqs)(k \<mapsto> q)\<rparr>"

definition buildResourceRequirements :: "parser \<Rightarrow> ResourceSpec \<Rightarrow> ResourceRequirements" where
  "buildResourceRequirements pq res =
     (let reqs0 = \<lparr>Limits = Map.empty, Requests = Map.empty\<rparr>;
          reqs1 = (if CPULimit res \<noteq> '''' then
                     (case pq (CPULimit res) of
                        Inr q \<Rightarrow> (if CPURequest res = ''''
                                  then setRequest ''cpu'' q (setLimit ''cpu'' q reqs0)
                                  else setLimit ''cpu'' q reqs0)
                      | Inl _ \<Rightarrow> reqs0)
                   else reqs0);
          reqs2 = (if CPURequest res \<noteq> '''' then
                     (case pq (CPURequest res) of
                        Inr q \<Rightarrow> setRequest ''cpu'' q reqs1
                      | Inl _ \<Rightarrow> reqs1)
                   else reqs1);
          reqs3 = (if MemLimit res \<noteq> '''' then
                     (case pq (MemLimit res) of
                        Inr q \<Rightarrow> (if MemRequest res = ''''
                                  then setRequest ''memory'' q (setLimit ''memory'' q reqs2)
                                  else setLimit ''memory'' q reqs2)
                      | Inl _ \<Rightarrow> reqs2)
                   else reqs2)
      in (if MemRequest res \<noteq> '''' then
            (case pq (MemRequest res) of
               Inr q \<Rightarrow> setRequest ''memory'' q reqs3
             | Inl _ \<Rightarrow> reqs3)
          else reqs3))"

definition buildDeployment :: "parser \<Rightarrow> EndpointPolicy \<Rightarrow> EndpointSpec \<Rightarrow> error + child" where
  "buildDeployment pq policy endpoint =
     (let name = endpointResourceName policy endpoint;
          labels = generateLabels policy endpoint;
          replicas0 = (1 :: int32);
          replicas1 = (case ep_Replicas endpoint of Some r \<Rightarrow> r | None \<Rightarrow> replicas0);
          replicas = (case ep_HPA endpoint of Some h \<Rightarrow> hpa_Min h | None \<Rightarrow> replicas1);
          containerPort = (if app_ContainerPort (AppRef (Spec policy)) = 0 then 8080
                           else app_ContainerPort (AppRef (Spec policy)));
          image = app_Image (AppRef (Spec policy))
      in if image = '''' then Inl ImageRequired
         else
           (let container =
                  \<lparr>c_Name = ep_ID endpoint,
                   c_Image = image,
                   c_Ports = [\<lparr>cp_Name = ''http'', cp_ContainerPort = containerPort,
                               cp_Protocol = ''TCP''\<rparr>],
                   c_Env = [\<lparr>env_Name = ''MICROAPI_GUARDRAIL'', env_Value = ep_ID endpoint\<rparr>],
                   c_Resources =
                     (case ep_Resources endpoint of
                        Some res \<Rightarrow> buildResourceRequirements pq res
                      | None \<Rightarrow> \<lparr>Limits = Map.empty, Requests = Map.empty\<rparr>)\<rparr>
            in Inr \<lparr>obj_Kind = Deployment, obj_Name = name, obj_Namespace = pol_Namespace policy,
                    obj_Labels = labels, obj_Owner = None,
                    obj_Spec = DepSpec
                      \<lparr>dep_Replicas = Some replicas,
                       dep_Selector = labels,
                       dep_TemplateLabels = labels,
                       dep_Containers = [container]\<rparr>\<rparr>))"

section \<open>Service builder (service.go)\<close>

definition buildService :: "EndpointPolicy \<Rightarrow> EndpointSpec \<Rightarrow> child" where
  "buildService policy endpoint =
     (let name = endpointServiceName policy endpoint;
          labels = generateLabels policy endpoint;
          servicePort = (if app_Port (AppRef (Spec policy)) = 0 then 80
                         else app_Port (AppRef (Spec policy)));
          containerPort = (if app_ContainerPort (AppRef (Spec policy)) = 0 then 8080
                           else app_ContainerPort (AppRef (Spec policy)))
      in \<lparr>obj_Kind = Service, obj_Name = name, obj_Namespace = pol_Namespace policy,
           obj_Labels = labels, obj_Owner = None,
           obj_Spec = SvcSpec
             \<lparr>svc_Type = ''ClusterIP'',
              svc_Selector = labels,
              svc_Ports = [\<lparr>sp_Name = ''http'', sp_Port = servicePort,
                            sp_TargetPort = containerPort, sp_Protocol = ''TCP''\<rparr>],
              svc_ClusterIP = ''''\<rparr>\<rparr>)"

section \<open>Autoscaler builder (hpa.go)\<close>

definition utilizationMetric :: "string \<Rightarrow> int32 option \<Rightarrow> MetricSpec" where
  "utilizationMetric resourceName target =
     \<lparr>ms_Type = ''Resource'',
      ms_Resource = Some \<lparr>rms_Name = resourceName,
                          rms_Target = \<lparr>mt_Type = ''Utilization'',
                                        mt_AverageUtilization = target\<rparr>\<rparr>\<rparr>"

text \<open>
  \<^verbatim>\<open>buildHPA\<close> dereferences \<^verbatim>\<open>endpoint.HPA\<close>: it is called for an endpoint whose hpa
  is set, so it takes the \<open>HPASpec\<close> itself.
\<close>

definition buildHPA :: "EndpointPolicy \<Rightarrow> EndpointSpec \<Rightarrow> HPASpec \<Rightarrow> child" where
  "buildHPA policy endpoint hpa =
     (let name = endpointResourceName policy endpoint;
          labels = generateLabels policy endpoint;
          metrics0 = [];
          metrics1 = (case CPUTarget hpa of
                        Some t \<Rightarrow> (if 0 < sint t
                                   then metrics0 @ [utilizationMetric ''cpu'' (CPUTarget hpa)]
                                   else metrics0)
                      | None \<Rightarrow> metrics0);
          metrics = (case MemoryTarget hpa of
                       Some t \<Rightarrow> (if 0 < sint t
                                  then metrics1 @ [utilizationMetric ''memory'' (MemoryTarget hpa)]
                                  else metrics1)
                     | None \<Rightarrow> metrics1)
      in \<lparr>obj_Kind = HorizontalPodAutoscaler, obj_Name = name,
           obj_Namespace = pol_Namespace policy,
           obj_Labels = labels, obj_Owner = None,
           obj_Spec = HPAObjSpec
             \<lparr>ScaleTargetRef = \<lparr>ref_APIVersion = ''apps/v1'', ref_Kind = ''Deployment'',
                                 ref_Name = name\<rparr>,
              MinReplicas = Some (hpa_Min hpa),
              MaxReplicas = hpa_Max hpa,
              Metrics = metrics\<rparr>\<rparr>)"

section \<open>Validation (validation.go)\<close>

type_synonym path = "path_elem list"

definition validateAppRef :: "AppReference \<Rightarrow> path \<Rightarrow> field_error list" where
  "validateAppRef a fldPath =
     (if app_Name a = ''''
      then [Required (fldPath @ [Child ''name'']) ''application name is required''] else []) @
     (if app_Image a = ''''
      then [Required (fldPath @ [Child ''image'']) ''container image is required''] else []) @
     (if sint (app_Port a) < 0
      then [Invalid (fldPath @ [Child ''port'']) (IntValue (app_Port a))
              ''must be a positive integer''] else []) @
     (if sint (app_ContainerPort a) < 0
      then [Invalid (fldPath @ [Child ''containerPort'']) (IntValue (app_ContainerPort a))
              ''must be a positive integer''] else [])"

definition validateGatewayRef :: "GatewayReference \<Rightarrow> path \<Rightarrow> field_error list" where
  "validateGatewayRef g fldPath =
     (if gw_Name g = ''''
      then [Required (fldPath @ [Child ''name'']) ''gateway name is required''] else [])"

definition validateMatch :: "EndpointSpec \<Rightarrow> path \<Rightarrow> field_error list" where
  "validateMatch e fldPath =
     (let epType = (if ep_Type e = '''' then ''http'' else ep_Type e)
      in if epType = ''http'' then
           (if m_Path (ep_Match e) = ''''
            then [Required (fldPath @ [Child ''path'']) ''path is required for HTTP endpoints'']
            else [])
         else if epType = ''grpc'' then
           (if m_Service (ep_Match e) = ''''
            then [Required (fldPath @ [Child ''service''])
                    ''service is required for gRPC endpoints''] else []) @
           (if m_Method (ep_Match e) = ''''
            then [Required (fldPath @ [Child ''method''])
                    ''method is required for gRPC endpoints''] else [])
         else [])"

definition validateResourceQuantity :: "parser \<Rightarrow> string \<Rightarrow> path \<Rightarrow> field_error list" where
  "validateResourceQuantity pq v fldPath =
     (if v = '''' then []
      else (case pq v of
              Inl err \<Rightarrow> [Invalid fldPath (StrValue v) (''invalid resource quantity: '' @ err)]
            | Inr _ \<Rightarrow> []))"

definition validateResources :: "parser \<Rightarrow> ResourceSpec \<Rightarrow> path \<Rightarrow> field_error list" where
  "validateResources pq r fldPath =
     validateResourceQuantity pq (CPULimit r) (fldPath @ [Child ''cpuLimit'']) @
     validateResourceQuantity pq (CPURequest r) (fldPath @ [Child ''cpuRequest'']) @
     validateResourceQuantity pq (MemLimit r) (fldPath @ [Child ''memLimit'']) @
     validateResourceQuantity pq (MemRequest r) (fldPath @ [Child ''memRequest''])"

definition validateHPA :: "HPASpec \<Rightarrow> path \<Rightarrow> field_error list" where
  "validateHPA h fldPath =
     (if sint (hpa_Min h) < 1
      then [Invalid (fldPath @ [Child ''min'']) (IntValue (hpa_Min h)) ''must be at least 1'']
      else []) @
     (if sint (hpa_Max h) < 1
      then [Invalid (fldPath @ [Child ''max'']) (IntValue (hpa_Max h)) ''must be at least 1'']
      else []) @
     (if sint (hpa_Max h) < sint (hpa_Min h)
      then [Invalid (fldPath @ [Child ''max'']) (IntValue (hpa_Max h))
              ''must be greater than or equal to min''] else []) @
     (if CPUTarget h = None \<and> MemoryTarget h = None
      then [Required fldPath ''at least one of cpuTarget or memoryTarget is required'']
      else [])"

definition validateEndpoint :: "parser \<Rightarrow> EndpointSpec \<Rightarrow> path \<Rightarrow> field_error list" where
  "validateEndpoint pq e fldPath =
     (if ep_ID e = ''''
      then [Required (fldPath @ [Child ''id'']) ''endpoint id is required''] else []) @
     validateMatch e (fldPath @ [Child ''match'']) @
     (case ep_Replicas e of
        Some r \<Rightarrow> (if sint r < 1
                   then [Invalid (fldPath @ [Child ''replicas'']) (IntValue r)
                           ''must be at least 1''] else [])
      | None \<Rightarrow> []) @
     (case ep_Resources e of
        Some res \<Rightarrow> validateResources pq res (fldPath @ [Child ''resources''])
      | None \<Rightarrow> []) @
     (case ep_HPA e of
        Some h \<Rightarrow> validateHPA h (fldPath @ [Child ''hpa''])
      | None \<Rightarrow> [])"

text \<open>The two loops of \<^verbatim>\<open>validateEndpoints\<close>, over the endpoints with their index.\<close>

fun duplicateIDs :: "path \<Rightarrow> nat \<Rightarrow> (string \<rightharpoonup> bool) \<Rightarrow> EndpointSpec list \<Rightarrow> field_error list" where
  "duplicateIDs fldPath i seen [] = []"
| "duplicateIDs fldPath i seen (ep # eps) =
     (if isDesired seen (ep_ID ep)
      then [Duplicate (fldPath @ [Index i, Child ''id'']) (StrValue (ep_ID ep))] else []) @
     duplicateIDs fldPath (Suc i) (seen(ep_ID ep \<mapsto> True)) eps"

fun validateEach :: "parser \<Rightarrow> path \<Rightarrow> nat \<Rightarrow> EndpointSpec list \<Rightarrow> field_error list" where
  "validateEach pq fldPath i [] = []"
| "validateEach pq fldPath i (ep # eps) =
     validateEndpoint pq ep (fldPath @ [Index i]) @ validateEach pq fldPath (Suc i) eps"

definition validateEndpoints :: "parser \<Rightarrow> EndpointSpec list \<Rightarrow> path \<Rightarrow> field_error list" where
  "validateEndpoints pq endpoints fldPath =
     (if endpoints = [] then [Required fldPath ''at least one endpoint is required'']
      else duplicateIDs fldPath 0 Map.empty endpoints @ validateEach pq fldPath 0 endpoints)"

definition validate :: "parser \<Rightarrow> EndpointPolicySpec \<Rightarrow> path \<Rightarrow> field_error list" where
  "validate pq s fldPath =
     validateAppRef (AppRef s) (fldPath @ [Child ''appRef'']) @
     validateGatewayRef (GatewayRef s) (fldPath @ [Child ''gatewayRef'']) @
     validateEndpoints pq (Endpoints s) (fldPath @ [Child ''endpoints''])"

text \<open>
  \<^verbatim>\<open>ErrorList.ToAggregate\<close> of the platform's library: nil for an empty list, else
  the errors with every repeated one dropped (the first occurrence stays).
\<close>

fun dropRepeated :: "field_error list \<Rightarrow> field_error list \<Rightarrow> field_error list" where
  "dropRepeated seen [] = []"
| "dropRepeated seen (e # es) =
     (if e \<in> set seen then dropRepeated seen es else e # dropRepeated (e # seen) es)"

definition ToAggregate :: "field_error list \<Rightarrow> field_error list option" where
  "ToAggregate errs = (if errs = [] then None else Some (dropRepeated [] errs))"

definition Validate :: "parser \<Rightarrow> EndpointPolicySpec \<Rightarrow> field_error list option" where
  "Validate pq s = ToAggregate (validate pq s [Child ''spec''])"

section \<open>The platform's API as explicit state\<close>

text \<open>
  The reconciler talks to the platform through a client (get, list, create, update,
  delete, status update). The model keeps the stored policies and child objects, the log
  of every call issued (in order), and a fault plan: \<open>faults c n call\<close> says whether the
  call \<open>call\<close>, issued as the \<open>n\<close>-th one, fails in the platform. Every pattern of
  failing calls is some fault plan. \<open>scheme_ok\<close> says whether the reconciler's scheme
  knows the policy type (\<^verbatim>\<open>SetControllerReference\<close> fails otherwise).
\<close>

datatype api_call =
    GetPolicyCall string string
  | StatusUpdateCall string string EndpointPolicyStatus
  | GetCall kind string string
  | ListCall kind string
  | CreateCall kind string string
  | UpdateCall kind string string
  | DeleteCall kind string string

record cluster =
  policies :: "EndpointPolicy list"
  objects :: "child list"
  calls :: "api_call list"
  faults :: "nat \<Rightarrow> api_call \<Rightarrow> bool"
  scheme_ok :: bool

definition invoke :: "api_call \<Rightarrow> cluster \<Rightarrow> bool \<times> cluster" where
  "invoke call c = (faults c (length (calls c)) call, c\<lparr>calls := calls c @ [call]\<rparr>)"

definition key :: "child \<Rightarrow> kind \<times> string \<times> string" where
  "key x = (obj_Kind x, obj_Namespace x, obj_Name x)"

definition r_Get :: "kind \<Rightarrow> string \<Rightarrow> string \<Rightarrow> cluster \<Rightarrow> (error + child) \<times> cluster" where
  "r_Get k ns n c =
     (case invoke (GetCall k ns n) c of
        (failed, c1) \<Rightarrow>
          if failed then (Inl ApiFailure, c1)
          else (case find (\<lambda>x. key x = (k, ns, n)) (objects c1) of
                  None \<Rightarrow> (Inl NotFound, c1)
                | Some x \<Rightarrow> (Inr x, c1)))"

definition r_Create :: "child \<Rightarrow> cluster \<Rightarrow> error option \<times> cluster" where
  "r_Create x c =
     (case invoke (CreateCall (obj_Kind x) (obj_Namespace x) (obj_Name x)) c of
        (failed, c1) \<Rightarrow>
          if failed then (Some ApiFailure, c1)
          else if key x \<in> set (map key (objects c1)) then (Some AlreadyExists, c1)
          else (None, c1\<lparr>objects := objects c1 @ [x]\<rparr>))"

definition r_Update :: "child \<Rightarrow> cluster \<Rightarrow> error option \<times> cluster" where
  "r_Update x c =
     (case invoke (UpdateCall (obj_Kind x) (obj_Namespace x) (obj_Name x)) c of
        (failed, c1) \<Rightarrow>
          if failed then (Some ApiFailure, c1)
          else if key x \<notin> set (map key (objects c1)) then (Some NotFound, c1)
          else (None, c1\<lparr>objects := map (\<lambda>y. if key y = key x then x else y) (objects c1)\<rparr>))"

definition r_Delete :: "child \<Rightarrow> cluster \<Rightarrow> error option \<times> cluster" where
  "r_Delete x c =
     (case invoke (DeleteCall (obj_Kind x) (obj_Namespace x) (obj_Name x)) c of
        (failed, c1) \<Rightarrow>
          if failed then (Some ApiFailure, c1)
          else if key x \<notin> set (map key (objects c1)) then (Some NotFound, c1)
          else (None, c1\<lparr>objects := filter (\<lambda>y. key y \<noteq> key x) (objects c1)\<rparr>))"

definition matchesLabels :: "(string \<times> string) list \<Rightarrow> labels \<Rightarrow> bool" where
  "matchesLabels sel l = list_all (\<lambda>(k, v). l k = Some v) sel"

definition r_List ::
  "kind \<Rightarrow> string \<Rightarrow> (string \<times> string) list \<Rightarrow> cluster \<Rightarrow> (error + child list) \<times> cluster" where
  "r_List k ns sel c =
     (case invoke (ListCall k ns) c of
        (failed, c1) \<Rightarrow>
          if failed then (Inl ApiFailure, c1)
          else (Inr (filter (\<lambda>x. obj_Kind x = k \<and> obj_Namespace x = ns \<and>
                                  matchesLabels sel (obj_Labels x)) (objects c1)), c1))"

definition samePolicy :: "string \<Rightarrow> string \<Rightarrow> EndpointPolicy \<Rightarrow> bool" where
  "samePolicy ns n p = (pol_Namespace p = ns \<and> pol_Name p = n)"

definition r_GetPolicy :: "string \<Rightarrow> string \<Rightarrow> cluster \<Rightarrow> (error + EndpointPolicy) \<times> cluster" where
  "r_GetPolicy ns n c =
     (case invoke (GetPolicyCall ns n) c of
        (failed, c1) \<Rightarrow>
          if failed then (Inl ApiFailure, c1)
          else (case find (samePolicy ns n) (policies c1) of
                  None \<Rightarrow> (Inl NotFound, c1)
                | Some p \<Rightarrow> (Inr p, c1)))"

definition r_StatusUpdate :: "EndpointPolicy \<Rightarrow> cluster \<Rightarrow> error option \<times> cluster" where
  "r_StatusUpdate p c =
     (case invoke (StatusUpdateCall (pol_Namespace p) (pol_Name p) (Status p)) c of
        (failed, c1) \<Rightarrow>
          if failed then (Some ApiFailure, c1)
          else if find (samePolicy (pol_Namespace p) (pol_Name p)) (policies c1) = None
          then (Some NotFound, c1)
          else (None, c1\<lparr>policies :=
                  map (\<lambda>q. if samePolicy (pol_Namespace p) (pol_Name p) q
                            then q\<lparr>Status := Status p\<rparr> else q) (policies c1)\<rparr>))"

definition SetControllerReference :: "EndpointPolicy \<Rightarrow> child \<Rightarrow> cluster \<Rightarrow> error + child" where
  "SetControllerReference owner x c =
     (if scheme_ok c then Inr (x\<lparr>obj_Owner := Some (pol_Name owner)\<rparr>)
      else Inl OwnerReferenceError)"

text \<open>
  \<^verbatim>\<open>meta.SetStatusCondition\<close> of the platform's library, without the timestamps: the
  first condition of the same type takes the new status, reason, message and observed
  generation; with none of that type the new condition is appended.
\<close>

fun SetStatusCondition :: "Condition list \<Rightarrow> Condition \<Rightarrow> Condition list" where
  "SetStatusCondition [] new = [new]"
| "SetStatusCondition (x # xs) new =
     (if cond_Type x = cond_Type new
      then x\<lparr>cond_Status := cond_Status new, cond_Reason := cond_Reason new,
              cond_Message := cond_Message new,
              cond_ObservedGeneration := cond_ObservedGeneration new\<rparr> # xs
      else x # SetStatusCondition xs new)"

definition FindStatusCondition :: "Condition list \<Rightarrow> string \<Rightarrow> Condition option" where
  "FindStatusCondition cs t = find (\<lambda>x. cond_Type x = t) cs"

section \<open>Convergence of one child (deployment.go, service.go, route.go, hpa.go)\<close>

text \<open>
  The five \<^verbatim>\<open>reconcile...\<close> functions share their second half: set the owner on the
  desired object, fetch the existing one by name, create the desired object when there
  is none, else overwrite fields of the existing one and update it. \<open>converge\<close> is that
  half; \<open>overwrite existing desired\<close> is the assignments each function makes before its
  update.
\<close>

definition converge ::
  "(child \<Rightarrow> child \<Rightarrow> child) \<Rightarrow> EndpointPolicy \<Rightarrow> string \<Rightarrow> child \<Rightarrow> cluster
     \<Rightarrow> (error + string) \<times> cluster" where
  "converge overwrite policy name desired0 c =
     (case SetControllerReference policy desired0 c of
        Inl err \<Rightarrow> (Inl err, c)
      | Inr desired \<Rightarrow>
          (case r_Get (obj_Kind desired) (pol_Namespace policy) name c of
             (Inl err, c1) \<Rightarrow>
               if err \<noteq> NotFound then (Inl err, c1)
               else (case r_Create desired c1 of
                       (Some e, c2) \<Rightarrow> (Inl e, c2)
                     | (None, c2) \<Rightarrow> (Inr name, c2))
           | (Inr existing, c1) \<Rightarrow>
               (case r_Update (overwrite existing desired) c1 of
                  (Some e, c2) \<Rightarrow> (Inl e, c2)
                | (None, c2) \<Rightarrow> (Inr name, c2))))"

text \<open>\<^verbatim>\<open>existing.Spec = desired.Spec; existing.Labels = desired.Labels\<close>\<close>

definition overwriteSpec :: "child \<Rightarrow> child \<Rightarrow> child" where
  "overwriteSpec existing desired =
     existing\<lparr>obj_Spec := obj_Spec desired, obj_Labels := obj_Labels desired\<rparr>"

text \<open>
  \<^verbatim>\<open>existing.Spec.Ports = desired.Spec.Ports; existing.Spec.Selector =
  desired.Spec.Selector; existing.Labels = desired.Labels\<close>. Both objects are Services in
  the source, where the client is typed; the last equation is for the other shapes.
\<close>

fun overwritePortsSelector :: "child_spec \<Rightarrow> child_spec \<Rightarrow> child_spec" where
  "overwritePortsSelector (SvcSpec e) (SvcSpec d) =
     SvcSpec (e\<lparr>svc_Ports := svc_Ports d, svc_Selector := svc_Selector d\<rparr>)"
| "overwritePortsSelector e d = e"

definition overwriteService :: "child \<Rightarrow> child \<Rightarrow> child" where
  "overwriteService existing desired =
     existing\<lparr>obj_Spec := overwritePortsSelector (obj_Spec existing) (obj_Spec desired),
              obj_Labels := obj_Labels desired\<rparr>"

definition reconcileDeployment ::
  "parser \<Rightarrow> EndpointPolicy \<Rightarrow> EndpointSpec \<Rightarrow> cluster \<Rightarrow> (error + string) \<times> cluster" where
  "reconcileDeployment pq policy endpoint c =
     (let name = endpointResourceName policy endpoint
      in case buildDeployment pq policy endpoint of
           Inl err \<Rightarrow> (Inl err, c)
         | Inr desired \<Rightarrow> converge overwriteSpec policy name desired c)"

definition reconcileService ::
  "EndpointPolicy \<Rightarrow> EndpointSpec \<Rightarrow> cluster \<Rightarrow> (error + string) \<times> cluster" where
  "reconcileService policy endpoint c =
     (let name = endpointServiceName policy endpoint;
          desired = buildService policy endpoint
      in converge overwriteService policy name desired c)"

definition reconcileHTTPRoute ::
  "EndpointPolicy \<Rightarrow> EndpointSpec \<Rightarrow> cluster \<Rightarrow> (error + string) \<times> cluster" where
  "reconcileHTTPRoute policy endpoint c =
     (let name = endpointResourceName policy endpoint;
          desired = buildHTTPRoute policy endpoint
      in converge overwriteSpec policy name desired c)"

definition reconcileGRPCRoute ::
  "EndpointPolicy \<Rightarrow> EndpointSpec \<Rightarrow> cluster \<Rightarrow> (error + string) \<times> cluster" where
  "reconcileGRPCRoute policy endpoint c =
     (let name = endpointResourceName policy endpoint;
          desired = buildGRPCRoute policy endpoint
      in converge overwriteSpec policy name desired c)"

definition validateMainServiceExists :: "EndpointPolicy \<Rightarrow> cluster \<Rightarrow> error option \<times> cluster" where
  "validateMainServiceExists policy c =
     (let mainSvc = mainServiceName policy
      in case r_Get Service (pol_Namespace policy) mainSvc c of
           (Inl err, c1) \<Rightarrow> (Some (MainServiceMissing mainSvc err), c1)
         | (Inr svc, c1) \<Rightarrow> (None, c1))"

definition reconcileRoute ::
  "EndpointPolicy \<Rightarrow> EndpointSpec \<Rightarrow> cluster \<Rightarrow> (error + string) \<times> cluster" where
  "reconcileRoute policy endpoint c =
     (if gw_Name (GatewayRef (Spec policy)) = '''' then (Inl GatewayNameRequired, c)
      else
        (let strategy = (if ep_Strategy endpoint = '''' then StrategyPrimary
                         else ep_Strategy endpoint)
         in case (if strategy = StrategyCanary then validateMainServiceExists policy c
                  else (None, c)) of
              (Some err, c1) \<Rightarrow> (Inl err, c1)
            | (None, c1) \<Rightarrow>
                (let endpointType = (if ep_Type endpoint = '''' then ''http''
                                     else ep_Type endpoint)
                 in if endpointType = ''grpc'' then reconcileGRPCRoute policy endpoint c1
                    else reconcileHTTPRoute policy endpoint c1)))"

definition reconcileHPA ::
  "EndpointPolicy \<Rightarrow> EndpointSpec \<Rightarrow> cluster \<Rightarrow> error option \<times> cluster" where
  "reconcileHPA policy endpoint c =
     (case ep_HPA endpoint of
        None \<Rightarrow> (None, c)
      | Some hpa \<Rightarrow>
          (let name = endpointResourceName policy endpoint;
               desired = buildHPA policy endpoint hpa
           in case converge overwriteSpec policy name desired c of
                (Inl err, c1) \<Rightarrow> (Some err, c1)
              | (Inr _, c1) \<Rightarrow> (None, c1)))"

section \<open>The reconciliation pass (reconciler.go)\<close>

text \<open>
  Logging and metrics are left out: they change no object and no branch. The state of
  the loop over the endpoints is the list of endpoint statuses, the \<^verbatim>\<open>desired\<close> map
  and the cluster.
\<close>

type_synonym loop_state = "EndpointStatus list \<times> (string \<rightharpoonup> bool) \<times> cluster"

definition newStatus :: "EndpointSpec \<Rightarrow> EndpointStatus" where
  "newStatus endpoint =
     \<lparr>st_ID = ep_ID endpoint, st_Ready = False, st_DeploymentName = '''',
      st_ServiceName = '''', st_RouteName = '''', st_Message = NoMessage\<rparr>"

definition reconcileEndpoint ::
  "parser \<Rightarrow> EndpointPolicy \<Rightarrow> EndpointSpec \<Rightarrow> loop_state \<Rightarrow> loop_state" where
  "reconcileEndpoint pq policy endpoint s =
     (case s of (endpointStatuses, desired, c) \<Rightarrow>
      (let status = newStatus endpoint
       in case reconcileDeployment pq policy endpoint c of
            (Inl err, c1) \<Rightarrow>
              (endpointStatuses @ [status\<lparr>st_Message := DeploymentError err\<rparr>],
               desired(ep_ID endpoint \<mapsto> True), c1)
          | (Inr deploymentName, c1) \<Rightarrow>
              (let status1 = status\<lparr>st_DeploymentName := deploymentName\<rparr>
               in case reconcileService policy endpoint c1 of
                    (Inl err, c2) \<Rightarrow>
                      (endpointStatuses @ [status1\<lparr>st_Message := ServiceError err\<rparr>],
                       desired(ep_ID endpoint \<mapsto> True), c2)
                  | (Inr serviceName, c2) \<Rightarrow>
                      (let status2 = status1\<lparr>st_ServiceName := serviceName\<rparr>
                       in case reconcileRoute policy endpoint c2 of
                            (Inl err, c3) \<Rightarrow>
                              (endpointStatuses @ [status2\<lparr>st_Message := RouteError err\<rparr>],
                               desired(ep_ID endpoint \<mapsto> True), c3)
                          | (Inr routeName, c3) \<Rightarrow>
                              (let status3 = status2\<lparr>st_RouteName := routeName\<rparr>
                               in case (if ep_HPA endpoint \<noteq> None
                                        then reconcileHPA policy endpoint c3
                                        else (None, c3)) of
                                    (Some err, c4) \<Rightarrow>
                                      (endpointStatuses @ [status3\<lparr>st_Message := HPAError err\<rparr>],
                                       desired(ep_ID endpoint \<mapsto> True), c4)
                                  | (None, c4) \<Rightarrow>
                                      (endpointStatuses @ [status3\<lparr>st_Ready := True\<rparr>],
                                       desired(ep_ID endpoint \<mapsto> True), c4))))))"

fun reconcileEndpoints ::
  "parser \<Rightarrow> EndpointPolicy \<Rightarrow> EndpointSpec list \<Rightarrow> loop_state \<Rightarrow> loop_state" where
  "reconcileEndpoints pq policy [] s = s"
| "reconcileEndpoints pq policy (endpoint # endpoints) s =
     reconcileEndpoints pq policy endpoints (reconcileEndpoint pq policy endpoint s)"

text \<open>
  \<^verbatim>\<open>r.List(ctx, list, ...)\<close> with its error dropped: a failed call leaves the list empty.
\<close>

definition listItems ::
  "kind \<Rightarrow> string \<Rightarrow> (string \<times> string) list \<Rightarrow> cluster \<Rightarrow> child list \<times> cluster" where
  "listItems k ns sel c =
     (case r_List k ns sel c of
        (Inl err, c1) \<Rightarrow> ([], c1)
      | (Inr items, c1) \<Rightarrow> (items, c1))"

text \<open>
  One garbage-collection loop: \<^verbatim>\<open>if !desired[eid] { _ = r.Delete(ctx, dep) }\<close> for every
  listed item.
\<close>

fun deleteUndesired :: "(string \<rightharpoonup> bool) \<Rightarrow> child list \<Rightarrow> cluster \<Rightarrow> cluster" where
  "deleteUndesired desired [] c = c"
| "deleteUndesired desired (dep # items) c =
     (let eid = labelValue (obj_Labels dep) ''endpointscaler.io/endpoint''
      in if \<not> isDesired desired eid
         then deleteUndesired desired items (snd (r_Delete dep c))
         else deleteUndesired desired items c)"

definition ownershipLabels :: "EndpointPolicy \<Rightarrow> (string \<times> string) list" where
  "ownershipLabels policy =
     [(''endpointscaler.io/policy'', pol_Name policy),
      (''app.kubernetes.io/managed-by'', ''endpoint-scaler'')]"

definition validationFailed :: "EndpointPolicy \<Rightarrow> field_error list \<Rightarrow> Condition" where
  "validationFailed policy err =
     \<lparr>cond_Type = ''Ready'', cond_Status = ''False'',
      cond_ObservedGeneration = pol_Generation policy,
      cond_Reason = ''ValidationFailed'', cond_Message = ValidationText err\<rparr>"

definition readyCondition :: "EndpointPolicy \<Rightarrow> nat \<Rightarrow> Condition" where
  "readyCondition policy readyCount =
     (if readyCount = length (Endpoints (Spec policy))
      then \<lparr>cond_Type = ''Ready'', cond_Status = ''True'',
            cond_ObservedGeneration = pol_Generation policy,
            cond_Reason = ''AllEndpointsReady'', cond_Message = AllReadyText readyCount\<rparr>
      else \<lparr>cond_Type = ''Ready'', cond_Status = ''False'',
            cond_ObservedGeneration = pol_Generation policy,
            cond_Reason = ''EndpointsNotReady'',
            cond_Message = NotReadyText readyCount (length (Endpoints (Spec policy)))\<rparr>)"

definition setCondition :: "Condition \<Rightarrow> EndpointPolicy \<Rightarrow> EndpointPolicy" where
  "setCondition cond policy =
     policy\<lparr>Status := (Status policy)\<lparr>Conditions :=
       SetStatusCondition (Conditions (Status policy)) cond\<rparr>\<rparr>"

text \<open>The pass after the policy is fetched and its spec has passed validation.\<close>

definition reconcileValid :: "parser \<Rightarrow> EndpointPolicy \<Rightarrow> cluster \<Rightarrow> error option \<times> cluster" where
  "reconcileValid pq policy c =
     (let labels = ownershipLabels policy;
          ns = pol_Namespace policy;
          (listofdeployments, c1) = listItems Deployment ns labels c;
          (listofservices, c2) = listItems Service ns labels c1;
          (listofroutes, c3) = listItems HTTPRoute ns labels c2;
          (listofgrpcroutes, c4) = listItems GRPCRoute ns labels c3;
          (listofhpas, c5) = listItems HorizontalPodAutoscaler ns labels c4;
          (endpointStatuses, desired, c6) =
             reconcileEndpoints pq policy (Endpoints (Spec policy)) ([], Map.empty, c5);
          c7 = deleteUndesired desired listofdeployments c6;
          c8 = deleteUndesired desired listofservices c7;
          c9 = deleteUndesired desired listofroutes c8;
          c10 = deleteUndesired desired listofgrpcroutes c9;
          c11 = deleteUndesired desired listofhpas c10;
          policy1 = policy\<lparr>Status := (Status policy)
                      \<lparr>EndpointCount := length (Endpoints (Spec policy)),
                       EndpointStatuses := endpointStatuses\<rparr>\<rparr>;
          readyCount = length (filter st_Ready endpointStatuses);
          policy2 = setCondition (readyCondition policy1 readyCount) policy1
      in r_StatusUpdate policy2 c11)"

definition Reconcile :: "parser \<Rightarrow> string \<Rightarrow> string \<Rightarrow> cluster \<Rightarrow> error option \<times> cluster" where
  "Reconcile pq ns n c =
     (case r_GetPolicy ns n c of
        (Inl err, c1) \<Rightarrow> if err = NotFound then (None, c1) else (Some err, c1)
      | (Inr policy, c1) \<Rightarrow>
          (case Validate pq (Spec policy) of
             Some err \<Rightarrow> r_StatusUpdate (setCondition (validationFailed policy err) policy) c1
           | None \<Rightarrow> reconcileValid pq policy c1))"

section \<open>The request-time guard (sdk)\<close>

text \<open>
  The process environment is a partial map; \<^verbatim>\<open>os.Getenv\<close> reads a variable that is
  not present as the empty string. A response writer holds the status written (if any)
  and the body; \<^verbatim>\<open>WriteHeader\<close> after the status is written changes nothing, and
  \<^verbatim>\<open>Write\<close> writes status 200 first when none is written.
\<close>

definition GuardrailEnvVar :: string where
  "GuardrailEnvVar = ''ENDPOINTSCALER_GUARDRAIL''"

definition Getenv :: "(string \<rightharpoonup> string) \<Rightarrow> string \<Rightarrow> string" where
  "Getenv env k = (case env k of None \<Rightarrow> '''' | Some v \<Rightarrow> v)"

record ResponseWriter =
  rw_Status :: "nat option"
  rw_Body :: string

definition WriteHeader :: "nat \<Rightarrow> ResponseWriter \<Rightarrow> ResponseWriter" where
  "WriteHeader code w = (if rw_Status w = None then w\<lparr>rw_Status := Some code\<rparr> else w)"

definition Write :: "string \<Rightarrow> ResponseWriter \<Rightarrow> ResponseWriter" where
  "Write b w = (WriteHeader 200 w)\<lparr>rw_Body := rw_Body w @ b\<rparr>"

definition StatusServiceUnavailable :: nat where
  "StatusServiceUnavailable = 503"

type_synonym 'r handler = "'r \<Rightarrow> ResponseWriter \<Rightarrow> ResponseWriter"

definition Guard :: "(string \<rightharpoonup> string) \<Rightarrow> string \<Rightarrow> 'r handler \<Rightarrow> 'r handler" where
  "Guard env endpointID handler =
     (\<lambda>r w. let guardrail = Getenv env GuardrailEnvVar
             in if guardrail = '''' then handler r w
                else if guardrail = endpointID then handler r w
                else Write ''endpoint not active'' (WriteHeader StatusServiceUnavailable w))"

definition IsActiveEndpoint :: "(string \<rightharpoonup> string) \<Rightarrow> string \<Rightarrow> bool" where
  "IsActiveEndpoint env endpointID =
     (let guardrail = Getenv env GuardrailEnvVar
      in guardrail = '''' \<or> guardrail = endpointID)"

definition ActiveEndpoint :: "(string \<rightharpoonup> string) \<Rightarrow> string" where
  "ActiveEndpoint env = Getenv env GuardrailEnvVar"

text \<open>The environment a container starts with: its \<^verbatim>\<open>Env\<close> entries, by name.\<close>

definition containerEnv :: "Container \<Rightarrow> (string \<rightharpoonup> string)" where
  "containerEnv ct = map_of (map (\<lambda>e. (env_Name e, env_Value e)) (c_Env ct))"

section \<open>The policies of the repository's tests (route\_test.go)\<close>

text \<open>A Go struct literal leaves the fields it does not name at their zero values.\<close>

definition zeroEndpointSpec :: EndpointSpec where
  "zeroEndpointSpec =
     \<lparr>ep_ID = '''', ep_Type = '''',
      ep_Match = \<lparr>m_Path = '''', m_Service = '''', m_Method = ''''\<rparr>,
      ep_Strategy = '''', ep_CanaryWeight = None, ep_Resources = None,
      ep_HPA = None, ep_Replicas = None\<rparr>"

definition zeroStatus :: EndpointPolicyStatus where
  "zeroStatus = \<lparr>EndpointCount = 0, Conditions = [], EndpointStatuses = []\<rparr>"

definition lookupEndpoint :: EndpointSpec where
  "lookupEndpoint =
     zeroEndpointSpec\<lparr>ep_ID := ''lookup'', ep_Type := ''http'',
       ep_Match := \<lparr>m_Path = ''/api/lookup'', m_Service = '''', m_Method = ''''\<rparr>,
       ep_Strategy := ''canary'', ep_CanaryWeight := Some 10\<rparr>"

definition fallbackEndpoint :: EndpointSpec where
  "fallbackEndpoint =
     zeroEndpointSpec\<lparr>ep_ID := ''fallback-endpoint'', ep_Type := ''http'',
       ep_Match := \<lparr>m_Path = ''/api/fallback'', m_Service = '''', m_Method = ''''\<rparr>,
       ep_Strategy := ''fallback''\<rparr>"

definition testEndpointPolicy :: EndpointPolicy where
  "testEndpointPolicy =
     \<lparr>pol_Name = ''test-policy'', pol_Namespace = ''default'', pol_Generation = 0,
      Spec = \<lparr>AppRef = \<lparr>app_Name = ''my-app'', app_Namespace = '''', app_Port = 8080,
                         app_ContainerPort = 0, app_Image = ''my-app:v1''\<rparr>,
              GatewayRef = \<lparr>gw_Name = ''my-gateway'', gw_Namespace = ''gateway-ns'',
                             gw_Hostname = ''''\<rparr>,
              Endpoints = [lookupEndpoint, fallbackEndpoint]\<rparr>,
      Status = zeroStatus\<rparr>"

definition userServiceEndpoint :: EndpointSpec where
  "userServiceEndpoint =
     zeroEndpointSpec\<lparr>ep_ID := ''user-service'', ep_Type := ''grpc'',
       ep_Match := \<lparr>m_Path = '''', m_Service = ''com.example.UserService'',
                     m_Method = ''GetUser''\<rparr>,
       ep_Strategy := ''canary'', ep_CanaryWeight := Some 5\<rparr>"

definition testGRPCEndpointPolicy :: EndpointPolicy where
  "testGRPCEndpointPolicy =
     \<lparr>pol_Name = ''test-grpc-policy'', pol_Namespace = ''default'', pol_Generation = 0,
      Spec = \<lparr>AppRef = \<lparr>app_Name = ''my-grpc-app'', app_Namespace = '''', app_Port = 9090,
                         app_ContainerPort = 0, app_Image = ''my-grpc-app:v1''\<rparr>,
              GatewayRef = \<lparr>gw_Name = ''my-gateway'', gw_Namespace = '''',
                             gw_Hostname = ''''\<rparr>,
              Endpoints = [userServiceEndpoint]\<rparr>,
      Status = zeroStatus\<rparr>"

section \<open>Concrete policies and clusters\<close>

text \<open>
  The inputs the closed theorems below evaluate the model on. \<open>oldEndpoint\<close> is an
  endpoint that an earlier version of the test policy had and the current one has not;
  \<open>testHPA\<close> is the hpa of hpa\_test.go.
\<close>

definition oldEndpoint :: EndpointSpec where
  "oldEndpoint = zeroEndpointSpec\<lparr>ep_ID := ''old''\<rparr>"

definition testHPA :: HPASpec where
  "testHPA = \<lparr>hpa_Min = 2, hpa_Max = 10, CPUTarget = Some 70, MemoryTarget = Some 80\<rparr>"

definition fallbackOnlyPolicy :: EndpointPolicy where
  "fallbackOnlyPolicy =
     testEndpointPolicy\<lparr>Spec := (Spec testEndpointPolicy)\<lparr>Endpoints := [fallbackEndpoint]\<rparr>\<rparr>"

text \<open>
  The test policy is stored; the Services of \<open>old\<close> and of \<open>lookup\<close> exist from an earlier
  pass; fetching the Deployment of \<open>lookup\<close> fails in this pass.
\<close>

definition gcCluster :: cluster where
  "gcCluster =
     \<lparr>policies = [testEndpointPolicy],
      objects = [buildService testEndpointPolicy oldEndpoint,
                 buildService testEndpointPolicy lookupEndpoint],
      calls = [],
      faults = (\<lambda>i call. call = GetCall Deployment ''default'' ''my-app-lookup''),
      scheme_ok = True\<rparr>"

text \<open>
  The Service of \<open>old\<close> exists; listing the autoscalers and deleting that Service fail.
\<close>

definition deleteFailsCluster :: cluster where
  "deleteFailsCluster =
     \<lparr>policies = [fallbackOnlyPolicy],
      objects = [buildService fallbackOnlyPolicy oldEndpoint],
      calls = [],
      faults = (\<lambda>i call. call = ListCall HorizontalPodAutoscaler ''default'' \<or>
                          call = DeleteCall Service ''default'' ''my-app-old-svc''),
      scheme_ok = True\<rparr>"

text \<open>The test policy without a gateway name (invalid), stored beside one child.\<close>

definition invalidPolicy :: EndpointPolicy where
  "invalidPolicy =
     testEndpointPolicy\<lparr>Spec := (Spec testEndpointPolicy)
       \<lparr>GatewayRef := \<lparr>gw_Name = '''', gw_Namespace = ''gateway-ns'', gw_Hostname = ''''\<rparr>\<rparr>\<rparr>"

definition invalidCluster :: cluster where
  "invalidCluster =
     \<lparr>policies = [invalidPolicy],
      objects = [buildService invalidPolicy oldEndpoint],
      calls = [],
      faults = (\<lambda>i call. False),
      scheme_ok = True\<rparr>"

text \<open>
  A Service of the \<open>fallback-endpoint\<close> endpoint that someone changed to type NodePort
  and that the platform gave a cluster IP.
\<close>

definition nodePortService :: child where
  "nodePortService =
     \<lparr>obj_Kind = Service, obj_Name = ''my-app-fallback-endpoint-svc'',
      obj_Namespace = ''default'', obj_Labels = Map.empty, obj_Owner = Some ''test-policy'',
      obj_Spec = SvcSpec \<lparr>svc_Type = ''NodePort'', svc_Selector = Map.empty,
                          svc_Ports = [], svc_ClusterIP = ''10.0.0.7''\<rparr>\<rparr>"

text \<open>Stale children of every kind under the names of the \<open>lookup\<close> endpoint.\<close>

definition staleChild :: "kind \<Rightarrow> string \<Rightarrow> child_spec \<Rightarrow> child" where
  "staleChild k n s =
     \<lparr>obj_Kind = k, obj_Name = n, obj_Namespace = ''default'', obj_Labels = Map.empty,
      obj_Owner = Some ''test-policy'', obj_Spec = s\<rparr>"

definition staleDeployment :: child where
  "staleDeployment =
     staleChild Deployment ''my-app-lookup''
       (DepSpec \<lparr>dep_Replicas = Some 7, dep_Selector = Map.empty,
                 dep_TemplateLabels = Map.empty, dep_Containers = []\<rparr>)"

definition staleHTTPRoute :: child where
  "staleHTTPRoute =
     staleChild HTTPRoute ''my-app-lookup''
       (HTTPSpec \<lparr>http_ParentRefs = [], http_Hostnames = [''old.example.com''],
                  http_Rules = []\<rparr>)"

definition staleGRPCRoute :: child where
  "staleGRPCRoute =
     staleChild GRPCRoute ''my-app-lookup''
       (GRPCSpec \<lparr>grpc_ParentRefs = [], grpc_Hostnames = [''old.example.com''],
                  grpc_Rules = []\<rparr>)"

definition staleHPA :: child where
  "staleHPA =
     staleChild HorizontalPodAutoscaler ''my-app-lookup''
       (HPAObjSpec \<lparr>ScaleTargetRef = \<lparr>ref_APIVersion = ''apps/v1'', ref_Kind = ''Deployment'',
                                       ref_Name = ''my-app-lookup''\<rparr>,
                    MinReplicas = Some 1, MaxReplicas = 3, Metrics = []\<rparr>)"

definition staleCluster :: cluster where
  "staleCluster =
     \<lparr>policies = [testEndpointPolicy],
      objects = [staleDeployment, nodePortService\<lparr>obj_Name := ''my-app-lookup-svc''\<rparr>,
                 staleHTTPRoute, staleGRPCRoute, staleHPA, nodePortService],
      calls = [],
      faults = (\<lambda>i call. False),
      scheme_ok = True\<rparr>"

section \<open>Observers used by the statements\<close>

text \<open>The child stored under a kind, namespace and name, if any.\<close>

definition stored :: "cluster \<Rightarrow> kind \<Rightarrow> string \<Rightarrow> string \<Rightarrow> child option" where
  "stored c k ns n = find (\<lambda>x. key x = (k, ns, n)) (objects c)"

text \<open>
  A child the policy owns: in the policy's namespace and carrying the two ownership
  labels, which is what the five list calls of the pass select.
\<close>

definition ownedBy :: "EndpointPolicy \<Rightarrow> child \<Rightarrow> bool" where
  "ownedBy policy x =
     (obj_Namespace x = pol_Namespace policy \<and>
      matchesLabels (ownershipLabels policy) (obj_Labels x))"

definition endpointLabel :: "child \<Rightarrow> string" where
  "endpointLabel x = labelValue (obj_Labels x) ''endpointscaler.io/endpoint''"

text \<open>What a built Deployment and a built autoscaler hold.\<close>

definition builtReplicas :: "error + child \<Rightarrow> int32 option" where
  "builtReplicas r =
     (case r of
        Inr d \<Rightarrow> (case obj_Spec d of DepSpec s \<Rightarrow> dep_Replicas s | _ \<Rightarrow> None)
      | Inl _ \<Rightarrow> None)"

definition builtContainers :: "error + child \<Rightarrow> Container list" where
  "builtContainers r =
     (case r of
        Inr d \<Rightarrow> (case obj_Spec d of DepSpec s \<Rightarrow> dep_Containers s | _ \<Rightarrow> [])
      | Inl _ \<Rightarrow> [])"

definition builtMetrics :: "child \<Rightarrow> MetricSpec list" where
  "builtMetrics x = (case obj_Spec x of HPAObjSpec s \<Rightarrow> Metrics s | _ \<Rightarrow> [])"

text \<open>
  The replica count in the words of claim C6's first clause: \<^verbatim>\<open>replicas\<close> if set, else
  \<^verbatim>\<open>hpa.min\<close> if hpa is set, else 1.
\<close>

definition replicasAsClaimed :: "EndpointSpec \<Rightarrow> int32" where
  "replicasAsClaimed endpoint =
     (case ep_Replicas endpoint of
        Some r \<Rightarrow> r
      | None \<Rightarrow> (case ep_HPA endpoint of Some h \<Rightarrow> hpa_Min h | None \<Rightarrow> 1))"

text \<open>The targets of an hpa that are set, and those that are set and positive.\<close>

definition nonNilTargets :: "HPASpec \<Rightarrow> nat" where
  "nonNilTargets hpa =
     (if CPUTarget hpa \<noteq> None then 1 else 0) + (if MemoryTarget hpa \<noteq> None then 1 else 0)"

definition isPositive :: "int32 option \<Rightarrow> bool" where
  "isPositive t = (case t of None \<Rightarrow> False | Some v \<Rightarrow> 0 < sint v)"

definition positiveTargets :: "HPASpec \<Rightarrow> nat" where
  "positiveTargets hpa =
     (if isPositive (CPUTarget hpa) then 1 else 0) +
     (if isPositive (MemoryTarget hpa) then 1 else 0)"

definition isUtilizationMetric :: "MetricSpec \<Rightarrow> bool" where
  "isUtilizationMetric m =
     (ms_Type m = ''Resource'' \<and>
      (case ms_Resource m of
         None \<Rightarrow> False
       | Some r \<Rightarrow> mt_Type (rms_Target r) = ''Utilization''))"

text \<open>
  The gate of claim C10 in its words: the handler is active when the variable is unset,
  or set and equal to the endpoint id.
\<close>

definition activeAsClaimed :: "(string \<rightharpoonup> string) \<Rightarrow> string \<Rightarrow> bool" where
  "activeAsClaimed env endpointID =
     (env GuardrailEnvVar = None \<or> env GuardrailEnvVar = Some endpointID)"

definition newResponse :: ResponseWriter where
  "newResponse = \<lparr>rw_Status = None, rw_Body = ''''\<rparr>"

text \<open>
  What every step of the loop over the endpoints keeps: no stored key disappears, and the
  fault plan, the stored policies and the scheme are untouched.
\<close>

definition grows :: "cluster \<Rightarrow> cluster \<Rightarrow> bool" where
  "grows c c' =
     (set (map key (objects c)) \<subseteq> set (map key (objects c')) \<and>
      faults c' = faults c \<and> policies c' = policies c \<and> scheme_ok c' = scheme_ok c)"

text \<open>What every step of garbage collection keeps: no object appears.\<close>

definition shrinks :: "cluster \<Rightarrow> cluster \<Rightarrow> bool" where
  "shrinks c c' =
     (set (objects c') \<subseteq> set (objects c) \<and>
      faults c' = faults c \<and> policies c' = policies c \<and> scheme_ok c' = scheme_ok c)"

text \<open>Fault plans under which no list call, or no delete call, fails.\<close>

definition noListFaults :: "cluster \<Rightarrow> bool" where
  "noListFaults c = (\<forall>i k ns. \<not> faults c i (ListCall k ns))"

definition noDeleteFaults :: "cluster \<Rightarrow> bool" where
  "noDeleteFaults c = (\<forall>i k ns nm. \<not> faults c i (DeleteCall k ns nm))"

text \<open>
  Convergence finds the child \<open>existing\<close> under its name and its update goes through:
  the scheme knows the policy, the child is stored, and neither the get (the next call)
  nor the update (the call after it) fails.
\<close>

definition existingChild :: "cluster \<Rightarrow> kind \<Rightarrow> string \<Rightarrow> string \<Rightarrow> child \<Rightarrow> bool" where
  "existingChild c k ns n existing =
     (scheme_ok c \<and> stored c k ns n = Some existing \<and>
      \<not> faults c (length (calls c)) (GetCall k ns n) \<and>
      \<not> faults c (Suc (length (calls c))) (UpdateCall k ns n))"

section \<open>Route backends: the weight laws\<close>

lemma sint_100_minus:
  assumes "- 2147483547 \<le> sint (w::int32)"
  shows "sint (100 - w) = 100 - sint w"
proof -
  have up: "sint w < 2 ^ 31" using sint_lt [of w] by simp
  have "sint (100 - w) = signed_take_bit 31 (100 - sint w)"
    by (simp add: sint_word_ariths)
  also have "\<dots> = 100 - sint w"
    using assms up by (intro signed_take_bit_int_eq_self) simp_all
  finally show ?thesis .
qed

lemma http_canary:
  "ep_Strategy endpoint = StrategyCanary \<Longrightarrow>
   buildHTTPBackendRefs policy endpoint =
     [backend (mainServiceName policy)
        (if app_Port (AppRef (Spec policy)) = 0 then 80 else app_Port (AppRef (Spec policy)))
        (100 - (case ep_CanaryWeight endpoint of None \<Rightarrow> 5 | Some v \<Rightarrow> v)),
      backend (endpointServiceName policy endpoint)
        (if app_Port (AppRef (Spec policy)) = 0 then 80 else app_Port (AppRef (Spec policy)))
        (case ep_CanaryWeight endpoint of None \<Rightarrow> 5 | Some v \<Rightarrow> v)]"
  by (simp add: buildHTTPBackendRefs_def StrategyCanary_def Let_def)

lemma grpc_canary:
  "ep_Strategy endpoint = StrategyCanary \<Longrightarrow>
   buildGRPCBackendRefs policy endpoint =
     [backend (mainServiceName policy)
        (if app_Port (AppRef (Spec policy)) = 0 then 9090 else app_Port (AppRef (Spec policy)))
        (100 - (case ep_CanaryWeight endpoint of None \<Rightarrow> 5 | Some v \<Rightarrow> v)),
      backend (endpointServiceName policy endpoint)
        (if app_Port (AppRef (Spec policy)) = 0 then 9090 else app_Port (AppRef (Spec policy)))
        (case ep_CanaryWeight endpoint of None \<Rightarrow> 5 | Some v \<Rightarrow> v)]"
  by (simp add: buildGRPCBackendRefs_def StrategyCanary_def Let_def)

lemma http_not_canary:
  "ep_Strategy endpoint \<noteq> StrategyCanary \<Longrightarrow>
   buildHTTPBackendRefs policy endpoint =
     [backend (endpointServiceName policy endpoint)
        (if app_Port (AppRef (Spec policy)) = 0 then 80 else app_Port (AppRef (Spec policy)))
        100]"
  by (simp add: buildHTTPBackendRefs_def StrategyCanary_def StrategyPrimary_def Let_def)

lemma grpc_not_canary:
  "ep_Strategy endpoint \<noteq> StrategyCanary \<Longrightarrow>
   buildGRPCBackendRefs policy endpoint =
     [backend (endpointServiceName policy endpoint)
        (if app_Port (AppRef (Spec policy)) = 0 then 9090 else app_Port (AppRef (Spec policy)))
        100]"
  by (simp add: buildGRPCBackendRefs_def StrategyCanary_def StrategyPrimary_def Let_def)

text \<open>
  Claim C1. For an endpoint with strategy \<open>canary\<close> and canary weight \<open>w\<close> (5 when
  \<^verbatim>\<open>canaryWeight\<close> is nil), the HTTP and the gRPC backend lists both have exactly two
  entries, the main service first and the endpoint service second, with the weights
  \<open>100 - w\<close> and \<open>w\<close>, which sum to 100. The arithmetic is that of the source,
  \<^verbatim>\<open>int32(100 - canaryWeight)\<close>: it holds for every \<^verbatim>\<open>int32\<close> \<open>w\<close>, and it is the
  arithmetic of the integers whenever \<open>100 - w\<close> does not leave the \<^verbatim>\<open>int32\<close> range
  (\<open>w \<ge> -2147483547\<close>, so for every weight 1..100 of the schema).
\<close>

theorem C1_canary_weight_law:
  assumes "ep_Strategy endpoint = StrategyCanary"
    and "w = (case ep_CanaryWeight endpoint of None \<Rightarrow> 5 | Some v \<Rightarrow> v)"
  shows "map br_Name (buildHTTPBackendRefs policy endpoint) =
           [mainServiceName policy, endpointServiceName policy endpoint]
       \<and> map br_Weight (buildHTTPBackendRefs policy endpoint) = [Some (100 - w), Some w]
       \<and> map br_Name (buildGRPCBackendRefs policy endpoint) =
           [mainServiceName policy, endpointServiceName policy endpoint]
       \<and> map br_Weight (buildGRPCBackendRefs policy endpoint) = [Some (100 - w), Some w]
       \<and> (100 - w) + w = 100
       \<and> (- 2147483547 \<le> sint w \<longrightarrow>
            sint (100 - w) = 100 - sint w \<and> sint (100 - w) + sint w = 100)"
  using assms sint_100_minus [of w]
  by (simp add: http_canary grpc_canary backend_def)

theorem C1_canary_weight_law_witness:
  "ep_Strategy lookupEndpoint = StrategyCanary
   \<and> map br_Name (buildHTTPBackendRefs testEndpointPolicy lookupEndpoint) =
       [''my-app-svc'', ''my-app-lookup-svc'']
   \<and> map br_Weight (buildHTTPBackendRefs testEndpointPolicy lookupEndpoint) = [Some 90, Some 10]
   \<and> map br_Weight (buildGRPCBackendRefs testEndpointPolicy lookupEndpoint) = [Some 90, Some 10]
   \<and> sint (100 - 10 :: int32) + sint (10 :: int32) = 100"
proof -
  have s: "ep_Strategy lookupEndpoint = StrategyCanary"
    by (simp add: lookupEndpoint_def zeroEndpointSpec_def StrategyCanary_def)
  have w: "(10 :: int32) = (case ep_CanaryWeight lookupEndpoint of None \<Rightarrow> 5 | Some v \<Rightarrow> v)"
    by (simp add: lookupEndpoint_def zeroEndpointSpec_def)
  show ?thesis
    using s C1_canary_weight_law [OF s w, of testEndpointPolicy]
    by (simp add: mainServiceName_def endpointServiceName_def testEndpointPolicy_def
        lookupEndpoint_def zeroEndpointSpec_def)
qed

text \<open>
  Claim C8. For an endpoint whose strategy is any string other than \<open>canary\<close> (the empty
  string and strings outside the schema's enum included), the HTTP and the gRPC route
  builders produce the backend list they produce for strategy \<open>primary\<close>: exactly one
  backend, the endpoint service, at weight 100.
\<close>

theorem C8_other_strategies_route_like_primary:
  assumes "ep_Strategy endpoint \<noteq> StrategyCanary"
  shows "buildHTTPBackendRefs policy endpoint =
           buildHTTPBackendRefs policy (endpoint\<lparr>ep_Strategy := StrategyPrimary\<rparr>)
       \<and> buildGRPCBackendRefs policy endpoint =
           buildGRPCBackendRefs policy (endpoint\<lparr>ep_Strategy := StrategyPrimary\<rparr>)
       \<and> map br_Name (buildHTTPBackendRefs policy endpoint) = [endpointServiceName policy endpoint]
       \<and> map br_Weight (buildHTTPBackendRefs policy endpoint) = [Some 100]
       \<and> map br_Name (buildGRPCBackendRefs policy endpoint) = [endpointServiceName policy endpoint]
       \<and> map br_Weight (buildGRPCBackendRefs policy endpoint) = [Some 100]"
proof -
  have p: "ep_Strategy (endpoint\<lparr>ep_Strategy := StrategyPrimary\<rparr>) \<noteq> StrategyCanary"
    by (simp add: StrategyPrimary_def StrategyCanary_def)
  have n: "endpointServiceName policy (endpoint\<lparr>ep_Strategy := StrategyPrimary\<rparr>) =
           endpointServiceName policy endpoint"
    by (simp add: endpointServiceName_def)
  show ?thesis
    using assms
    by (simp add: http_not_canary [OF assms] grpc_not_canary [OF assms]
        http_not_canary [OF p] grpc_not_canary [OF p] n backend_def)
qed

theorem C8_other_strategies_route_like_primary_witness:
  "ep_Strategy fallbackEndpoint \<noteq> StrategyCanary
   \<and> map br_Name (buildHTTPBackendRefs testEndpointPolicy fallbackEndpoint) =
       [''my-app-fallback-endpoint-svc'']
   \<and> map br_Weight (buildHTTPBackendRefs testEndpointPolicy fallbackEndpoint) = [Some 100]
   \<and> map br_Weight (buildGRPCBackendRefs testEndpointPolicy fallbackEndpoint) = [Some 100]"
proof -
  have s: "ep_Strategy fallbackEndpoint \<noteq> StrategyCanary"
    by (simp add: fallbackEndpoint_def zeroEndpointSpec_def StrategyCanary_def)
  have n: "endpointServiceName testEndpointPolicy fallbackEndpoint =
             ''my-app-fallback-endpoint-svc''"
    by (simp add: endpointServiceName_def testEndpointPolicy_def
        fallbackEndpoint_def zeroEndpointSpec_def)
  from C8_other_strategies_route_like_primary [OF s, of testEndpointPolicy]
  have "map br_Name (buildHTTPBackendRefs testEndpointPolicy fallbackEndpoint) =
          [endpointServiceName testEndpointPolicy fallbackEndpoint]
      \<and> map br_Weight (buildHTTPBackendRefs testEndpointPolicy fallbackEndpoint) = [Some 100]
      \<and> map br_Weight (buildGRPCBackendRefs testEndpointPolicy fallbackEndpoint) = [Some 100]"
    by blast
  with s n show ?thesis by simp
qed

section \<open>The builders: replica count and metrics\<close>

lemma buildDeployment_replicas:
  "app_Image (AppRef (Spec policy)) \<noteq> '''' \<Longrightarrow>
   builtReplicas (buildDeployment pq policy endpoint) =
     Some (case ep_HPA endpoint of
             Some h \<Rightarrow> hpa_Min h
           | None \<Rightarrow> (case ep_Replicas endpoint of Some r \<Rightarrow> r | None \<Rightarrow> 1))"
  by (simp add: buildDeployment_def builtReplicas_def Let_def split: option.splits)

lemma testEndpointPolicy_image: "app_Image (AppRef (Spec testEndpointPolicy)) \<noteq> ''''"
  by (simp add: testEndpointPolicy_def)

lemma buildHPA_metrics:
  "builtMetrics (buildHPA policy endpoint hpa) =
     (if isPositive (CPUTarget hpa) then [utilizationMetric ''cpu'' (CPUTarget hpa)] else []) @
     (if isPositive (MemoryTarget hpa)
      then [utilizationMetric ''memory'' (MemoryTarget hpa)] else [])"
  by (simp add: buildHPA_def builtMetrics_def isPositive_def Let_def split: option.splits)

lemma validateEach_hpa_without_target:
  assumes "e \<in> set endpoints" "ep_HPA e = Some h" "CPUTarget h = None" "MemoryTarget h = None"
  shows "validateEach pq fldPath i endpoints \<noteq> []"
  using assms
proof (induction endpoints arbitrary: i)
  case Nil
  then show ?case by simp
next
  case (Cons a endpoints)
  show ?case
  proof (cases "a = e")
    case True
    with Cons.prems show ?thesis
      by (simp add: validateEndpoint_def validateHPA_def)
  next
    case False
    with Cons show ?thesis by simp
  qed
qed

lemma Validate_hpa_without_target:
  assumes "e \<in> set (Endpoints s)" "ep_HPA e = Some h" "CPUTarget h = None" "MemoryTarget h = None"
  shows "Validate pq s \<noteq> None"
proof -
  have ne: "Endpoints s \<noteq> []" using assms(1) by auto
  have "validateEach pq ([Child ''spec''] @ [Child ''endpoints'']) 0 (Endpoints s) \<noteq> []"
    using assms by (rule validateEach_hpa_without_target)
  then have "validate pq s [Child ''spec''] \<noteq> []"
    using ne by (simp add: validate_def validateEndpoints_def)
  then show ?thesis by (simp add: Validate_def ToAggregate_def)
qed

section \<open>What the client calls and the loops preserve\<close>

lemma grows_refl [simp]: "grows c c"
  by (simp add: grows_def)

lemma grows_trans: "grows a b \<Longrightarrow> grows b c \<Longrightarrow> grows a c"
  by (auto simp: grows_def)

lemma shrinks_refl [simp]: "shrinks c c"
  by (simp add: shrinks_def)

lemma shrinks_trans: "shrinks a b \<Longrightarrow> shrinks b c \<Longrightarrow> shrinks a c"
  by (auto simp: shrinks_def)

lemma invoke_fields [simp]:
  "objects (snd (invoke call c)) = objects c"
  "faults (snd (invoke call c)) = faults c"
  "policies (snd (invoke call c)) = policies c"
  "scheme_ok (snd (invoke call c)) = scheme_ok c"
  "calls (snd (invoke call c)) = calls c @ [call]"
  "fst (invoke call c) = faults c (length (calls c)) call"
  by (simp_all add: invoke_def)

lemma r_Get_grows: "r_Get k ns n c = (r, c') \<Longrightarrow> grows c c'"
  by (auto simp: r_Get_def grows_def invoke_def split: prod.splits if_splits option.splits)

lemma r_Create_grows: "r_Create x c = (r, c') \<Longrightarrow> grows c c'"
  by (auto simp: r_Create_def grows_def invoke_def split: prod.splits if_splits)

lemma map_key_replace:
  "map key (map (\<lambda>y. if key y = key x then x else y) xs) = map key xs"
  by (induction xs) auto

lemma r_Update_keys: "map key (objects (snd (r_Update x c))) = map key (objects c)"
  by (simp add: r_Update_def invoke_def map_key_replace del: map_map)

lemma r_Update_grows: "r_Update x c = (r, c') \<Longrightarrow> grows c c'"
proof -
  assume a: "r_Update x c = (r, c')"
  have "map key (objects c') = map key (objects c)"
    using r_Update_keys [of x c] a by simp
  moreover have "faults c' = faults c \<and> policies c' = policies c \<and> scheme_ok c' = scheme_ok c"
    using a by (auto simp: r_Update_def invoke_def split: if_splits)
  ultimately show ?thesis by (simp add: grows_def)
qed

lemma r_Delete_shrinks: "r_Delete x c = (r, c') \<Longrightarrow> shrinks c c'"
  by (auto simp: r_Delete_def shrinks_def invoke_def split: prod.splits if_splits)

lemma converge_grows: "converge ow policy name d c = (r, c') \<Longrightarrow> grows c c'"
  by (auto simp: converge_def SetControllerReference_def
      split: sum.splits prod.splits if_splits option.splits
      dest!: r_Get_grows r_Create_grows r_Update_grows intro: grows_trans)

lemma reconcileDeployment_grows: "reconcileDeployment pq policy e c = (r, c') \<Longrightarrow> grows c c'"
  by (auto simp: reconcileDeployment_def split: sum.splits dest: converge_grows)

lemma reconcileService_grows: "reconcileService policy e c = (r, c') \<Longrightarrow> grows c c'"
  by (auto simp: reconcileService_def dest: converge_grows)

lemma reconcileHTTPRoute_grows: "reconcileHTTPRoute policy e c = (r, c') \<Longrightarrow> grows c c'"
  by (auto simp: reconcileHTTPRoute_def dest: converge_grows)

lemma reconcileGRPCRoute_grows: "reconcileGRPCRoute policy e c = (r, c') \<Longrightarrow> grows c c'"
  by (auto simp: reconcileGRPCRoute_def dest: converge_grows)

lemma validateMainServiceExists_grows:
  "validateMainServiceExists policy c = (r, c') \<Longrightarrow> grows c c'"
  by (auto simp: validateMainServiceExists_def Let_def split: prod.splits sum.splits
      dest: r_Get_grows)

lemma reconcileRoute_grows: "reconcileRoute policy e c = (r, c') \<Longrightarrow> grows c c'"
  by (auto simp: reconcileRoute_def Let_def split: if_splits prod.splits option.splits
      dest!: validateMainServiceExists_grows reconcileGRPCRoute_grows reconcileHTTPRoute_grows
      intro: grows_trans)

lemma reconcileHPA_grows: "reconcileHPA policy e c = (r, c') \<Longrightarrow> grows c c'"
  by (auto simp: reconcileHPA_def Let_def split: option.splits prod.splits sum.splits
      dest: converge_grows)


lemma reconcileEndpoint_grows:
  assumes "reconcileEndpoint pq policy e (sts, desired, c) = (sts', desired', c')"
  shows "grows c c'"
proof -
  obtain r1 c1 where d: "reconcileDeployment pq policy e c = (r1, c1)" by (cases "reconcileDeployment pq policy e c")
  obtain r2 c2 where s: "reconcileService policy e c1 = (r2, c2)" by (cases "reconcileService policy e c1")
  obtain r3 c3 where r: "reconcileRoute policy e c2 = (r3, c3)" by (cases "reconcileRoute policy e c2")
  obtain r4 c4 where h: "reconcileHPA policy e c3 = (r4, c4)" by (cases "reconcileHPA policy e c3")
  have g1: "grows c c1" using d by (rule reconcileDeployment_grows)
  have g2: "grows c c2" using g1 reconcileService_grows [OF s] by (rule grows_trans)
  have g3: "grows c c3" using g2 reconcileRoute_grows [OF r] by (rule grows_trans)
  have g4: "grows c c4" using g3 reconcileHPA_grows [OF h] by (rule grows_trans)
  have "c' = c1 \<or> c' = c2 \<or> c' = c3 \<or> c' = c4"
    using assms d s r h
    by (auto simp: reconcileEndpoint_def Let_def split: sum.splits option.splits if_splits)
  with g1 g2 g3 g4 show ?thesis by blast
qed

lemma reconcileEndpoint_desired:
  assumes "reconcileEndpoint pq policy e (sts, desired, c) = (sts', desired', c')"
  shows "desired' = desired(ep_ID e \<mapsto> True)"
  using assms
  by (auto simp: reconcileEndpoint_def Let_def split: sum.splits option.splits if_splits prod.splits)

lemma reconcileEndpoints_grows:
  "reconcileEndpoints pq policy es (sts, desired, c) = (sts', desired', c') \<Longrightarrow> grows c c'"
proof (induction es arbitrary: sts desired c)
  case Nil
  then show ?case by simp
next
  case (Cons e es)
  obtain sts1 desired1 c1 where
    step: "reconcileEndpoint pq policy e (sts, desired, c) = (sts1, desired1, c1)"
    by (cases "reconcileEndpoint pq policy e (sts, desired, c)") auto
  from Cons.prems step
  have "reconcileEndpoints pq policy es (sts1, desired1, c1) = (sts', desired', c')" by simp
  then have "grows c1 c'" by (rule Cons.IH)
  with reconcileEndpoint_grows [OF step] show ?case by (rule grows_trans)
qed

lemma reconcileEndpoints_desired:
  "reconcileEndpoints pq policy es (sts, desired, c) = (sts', desired', c') \<Longrightarrow>
   isDesired desired' k = (isDesired desired k \<or> k \<in> set (map ep_ID es))"
proof (induction es arbitrary: sts desired c)
  case Nil
  then show ?case by simp
next
  case (Cons e es)
  obtain sts1 desired1 c1 where
    step: "reconcileEndpoint pq policy e (sts, desired, c) = (sts1, desired1, c1)"
    by (cases "reconcileEndpoint pq policy e (sts, desired, c)") auto
  from Cons.prems step
  have rest: "reconcileEndpoints pq policy es (sts1, desired1, c1) = (sts', desired', c')" by simp
  have d1: "desired1 = desired(ep_ID e \<mapsto> True)"
    using step by (rule reconcileEndpoint_desired)
  show ?case
    using Cons.IH [OF rest] d1 by (auto simp: isDesired_def)
qed

lemma deleteUndesired_shrinks: "shrinks c (deleteUndesired desired items c)"
proof (induction items arbitrary: c)
  case Nil
  then show ?case by simp
next
  case (Cons y items)
  have "shrinks c (snd (r_Delete y c))"
    by (rule r_Delete_shrinks [of y c "fst (r_Delete y c)"]) simp
  with Cons.IH show ?case
    by (auto simp: Let_def intro: shrinks_trans)
qed

lemma r_Delete_keeps:
  "k \<in> set (map key (objects c)) \<Longrightarrow> key y \<noteq> k \<Longrightarrow>
   k \<in> set (map key (objects (snd (r_Delete y c))))"
  by (auto simp: r_Delete_def invoke_def)

lemma deleteUndesired_keeps:
  "k \<in> set (map key (objects c)) \<Longrightarrow>
   (\<forall>y \<in> set items. \<not> isDesired desired (endpointLabel y) \<longrightarrow> key y \<noteq> k) \<Longrightarrow>
   k \<in> set (map key (objects (deleteUndesired desired items c)))"
proof (induction items arbitrary: c)
  case Nil
  then show ?case by simp
next
  case (Cons y items)
  show ?case
  proof (cases "isDesired desired (endpointLabel y)")
    case True
    with Cons show ?thesis by (simp add: endpointLabel_def)
  next
    case False
    with Cons.prems have "key y \<noteq> k" by simp
    with Cons.prems(1) have "k \<in> set (map key (objects (snd (r_Delete y c))))"
      by (rule r_Delete_keeps)
    with Cons False show ?thesis by (simp add: endpointLabel_def)
  qed
qed

lemma r_Delete_removes:
  "noDeleteFaults c \<Longrightarrow> key y \<notin> set (map key (objects (snd (r_Delete y c))))"
  by (auto simp: r_Delete_def invoke_def noDeleteFaults_def)

lemma shrinks_absent:
  "shrinks c c' \<Longrightarrow> k \<notin> set (map key (objects c)) \<Longrightarrow> k \<notin> set (map key (objects c'))"
  by (auto simp: shrinks_def)

lemma shrinks_noDeleteFaults: "shrinks c c' \<Longrightarrow> noDeleteFaults c \<Longrightarrow> noDeleteFaults c'"
  by (simp add: shrinks_def noDeleteFaults_def)

lemma deleteUndesired_removes:
  "noDeleteFaults c \<Longrightarrow> y \<in> set items \<Longrightarrow> \<not> isDesired desired (endpointLabel y) \<Longrightarrow>
   key y \<notin> set (map key (objects (deleteUndesired desired items c)))"
proof (induction items arbitrary: c)
  case Nil
  then show ?case by simp
next
  case (Cons a items)
  have sh: "shrinks c (snd (r_Delete a c))"
    by (rule r_Delete_shrinks [of a c "fst (r_Delete a c)"]) simp
  show ?case
  proof (cases "a = y")
    case True
    have "key y \<notin> set (map key (objects (snd (r_Delete y c))))"
      using Cons.prems(1) by (rule r_Delete_removes)
    then have "key y \<notin> set (map key (objects (deleteUndesired desired items (snd (r_Delete y c)))))"
      by (rule shrinks_absent [OF deleteUndesired_shrinks])
    with True Cons.prems(3) show ?thesis by (simp add: endpointLabel_def)
  next
    case False
    with Cons.prems have in_tail: "y \<in> set items" by simp
    show ?thesis
    proof (cases "isDesired desired (endpointLabel a)")
      case True
      with Cons.IH [OF Cons.prems(1) in_tail Cons.prems(3)] show ?thesis
        by (simp add: endpointLabel_def)
    next
      case False
      have "noDeleteFaults (snd (r_Delete a c))"
        using sh Cons.prems(1) by (rule shrinks_noDeleteFaults)
      from Cons.IH [OF this in_tail Cons.prems(3)] False show ?thesis
        by (simp add: endpointLabel_def)
    qed
  qed
qed

section \<open>The shape of a pass\<close>

lemma listItems_store:
  assumes "listItems k ns sel c = (items, c')"
  shows "objects c' = objects c" "faults c' = faults c" "policies c' = policies c"
    "scheme_ok c' = scheme_ok c"
  using assms
  by (auto simp: listItems_def r_List_def invoke_def split: prod.splits sum.splits if_splits)

lemma listItems_subset:
  assumes "listItems k ns sel c = (items, c')"
  shows "set items \<subseteq> set (objects c)"
  using assms
  by (auto simp: listItems_def r_List_def invoke_def split: prod.splits sum.splits if_splits)

lemma listItems_complete:
  assumes "listItems k ns sel c = (items, c')" "noListFaults c"
    "x \<in> set (objects c)" "obj_Kind x = k" "obj_Namespace x = ns"
    "matchesLabels sel (obj_Labels x)"
  shows "x \<in> set items"
  using assms
  by (auto simp: listItems_def r_List_def invoke_def noListFaults_def
      split: prod.splits sum.splits if_splits)

lemma r_StatusUpdate_store:
  "objects (snd (r_StatusUpdate p c)) = objects c"
  "faults (snd (r_StatusUpdate p c)) = faults c"
  by (simp_all add: r_StatusUpdate_def invoke_def)

lemma r_StatusUpdate_ok:
  assumes "find (samePolicy (pol_Namespace p) (pol_Name p)) (policies c) \<noteq> None"
    and "\<not> faults c (length (calls c)) (StatusUpdateCall (pol_Namespace p) (pol_Name p) (Status p))"
  shows "fst (r_StatusUpdate p c) = None"
  using assms by (simp add: r_StatusUpdate_def invoke_def)

lemma r_GetPolicy_Inr:
  assumes "r_GetPolicy ns n c = (Inr policy, c0)"
  shows "c0 = c\<lparr>calls := calls c @ [GetPolicyCall ns n]\<rparr>"
    "find (samePolicy ns n) (policies c) = Some policy"
    "pol_Namespace policy = ns" "pol_Name policy = n"
    "\<not> faults c (length (calls c)) (GetPolicyCall ns n)"
proof -
  show a: "c0 = c\<lparr>calls := calls c @ [GetPolicyCall ns n]\<rparr>"
    and b: "find (samePolicy ns n) (policies c) = Some policy"
    and "\<not> faults c (length (calls c)) (GetPolicyCall ns n)"
    using assms
    by (auto simp: r_GetPolicy_def invoke_def split: if_splits option.splits)
  from b have "samePolicy ns n policy" by (auto simp: find_Some_iff)
  then show "pol_Namespace policy = ns" "pol_Name policy = n"
    by (simp_all add: samePolicy_def)
qed

lemma deleteUndesired5_shrinks:
  "shrinks c (deleteUndesired d l5 (deleteUndesired d l4
     (deleteUndesired d l3 (deleteUndesired d l2 (deleteUndesired d l1 c)))))"
proof -
  have 1: "shrinks c (deleteUndesired d l1 c)" by (rule deleteUndesired_shrinks)
  have 2: "shrinks c (deleteUndesired d l2 (deleteUndesired d l1 c))"
    using 1 deleteUndesired_shrinks by (rule shrinks_trans)
  have 3: "shrinks c (deleteUndesired d l3 (deleteUndesired d l2 (deleteUndesired d l1 c)))"
    using 2 deleteUndesired_shrinks by (rule shrinks_trans)
  have 4: "shrinks c (deleteUndesired d l4
     (deleteUndesired d l3 (deleteUndesired d l2 (deleteUndesired d l1 c))))"
    using 3 deleteUndesired_shrinks by (rule shrinks_trans)
  show ?thesis
    using 4 deleteUndesired_shrinks by (rule shrinks_trans)
qed

lemma reconcileValid_unfold:
  assumes "listItems Deployment (pol_Namespace policy) (ownershipLabels policy) c0 = (l1, c1)"
    and "listItems Service (pol_Namespace policy) (ownershipLabels policy) c1 = (l2, c2)"
    and "listItems HTTPRoute (pol_Namespace policy) (ownershipLabels policy) c2 = (l3, c3)"
    and "listItems GRPCRoute (pol_Namespace policy) (ownershipLabels policy) c3 = (l4, c4)"
    and "listItems HorizontalPodAutoscaler (pol_Namespace policy) (ownershipLabels policy) c4
           = (l5, c5)"
    and "reconcileEndpoints pq policy (Endpoints (Spec policy)) ([], Map.empty, c5)
           = (sts, desired, c6)"
  shows "reconcileValid pq policy c0 =
     r_StatusUpdate
       (setCondition
          (readyCondition
             (policy\<lparr>Status := (Status policy)
                \<lparr>EndpointCount := length (Endpoints (Spec policy)), EndpointStatuses := sts\<rparr>\<rparr>)
             (length (filter st_Ready sts)))
          (policy\<lparr>Status := (Status policy)
                \<lparr>EndpointCount := length (Endpoints (Spec policy)), EndpointStatuses := sts\<rparr>\<rparr>))
       (deleteUndesired desired l5 (deleteUndesired desired l4
         (deleteUndesired desired l3 (deleteUndesired desired l2
           (deleteUndesired desired l1 c6)))))"
  unfolding reconcileValid_def Let_def assms prod.case ..

lemma reconcileValid_final:
  "\<exists>policy2 c11. reconcileValid pq policy c0 = r_StatusUpdate policy2 c11
     \<and> pol_Namespace policy2 = pol_Namespace policy \<and> pol_Name policy2 = pol_Name policy
     \<and> faults c11 = faults c0 \<and> policies c11 = policies c0"
proof -
  obtain l1 c1 where
    a1: "listItems Deployment (pol_Namespace policy) (ownershipLabels policy) c0 = (l1, c1)"
    by (cases "listItems Deployment (pol_Namespace policy) (ownershipLabels policy) c0")
  obtain l2 c2 where
    a2: "listItems Service (pol_Namespace policy) (ownershipLabels policy) c1 = (l2, c2)"
    by (cases "listItems Service (pol_Namespace policy) (ownershipLabels policy) c1")
  obtain l3 c3 where
    a3: "listItems HTTPRoute (pol_Namespace policy) (ownershipLabels policy) c2 = (l3, c3)"
    by (cases "listItems HTTPRoute (pol_Namespace policy) (ownershipLabels policy) c2")
  obtain l4 c4 where
    a4: "listItems GRPCRoute (pol_Namespace policy) (ownershipLabels policy) c3 = (l4, c4)"
    by (cases "listItems GRPCRoute (pol_Namespace policy) (ownershipLabels policy) c3")
  obtain l5 c5 where
    a5: "listItems HorizontalPodAutoscaler (pol_Namespace policy) (ownershipLabels policy) c4
           = (l5, c5)"
    by (cases "listItems HorizontalPodAutoscaler (pol_Namespace policy)
                 (ownershipLabels policy) c4")
  obtain sts desired c6 where
    b: "reconcileEndpoints pq policy (Endpoints (Spec policy)) ([], Map.empty, c5)
          = (sts, desired, c6)"
    by (cases "reconcileEndpoints pq policy (Endpoints (Spec policy)) ([], Map.empty, c5)")
  note eq = reconcileValid_unfold [OF a1 a2 a3 a4 a5 b]
  have s5: "faults c5 = faults c0 \<and> policies c5 = policies c0"
    using listItems_store [OF a1] listItems_store [OF a2] listItems_store [OF a3]
      listItems_store [OF a4] listItems_store [OF a5] by simp
  have s6: "faults c6 = faults c0 \<and> policies c6 = policies c0"
    using reconcileEndpoints_grows [OF b] s5 by (simp add: grows_def)
  have s11: "faults (deleteUndesired desired l5 (deleteUndesired desired l4
         (deleteUndesired desired l3 (deleteUndesired desired l2
           (deleteUndesired desired l1 c6))))) = faults c0
      \<and> policies (deleteUndesired desired l5 (deleteUndesired desired l4
         (deleteUndesired desired l3 (deleteUndesired desired l2
           (deleteUndesired desired l1 c6))))) = policies c0"
    using deleteUndesired5_shrinks [of c6 desired l5 l4 l3 l2 l1] s6
    by (simp add: shrinks_def)
  show ?thesis
    apply (rule exI, rule exI)
    apply (rule conjI [OF eq])
    using s11 by (simp add: setCondition_def)
qed

lemma distinct_key_eq:
  "distinct (map key xs) \<Longrightarrow> x \<in> set xs \<Longrightarrow> y \<in> set xs \<Longrightarrow> key x = key y \<Longrightarrow> x = y"
  by (auto simp: distinct_map inj_on_def)

lemma deleteUndesired5_keeps:
  assumes "k \<in> set (map key (objects c))"
    and "\<forall>y \<in> set l1 \<union> set l2 \<union> set l3 \<union> set l4 \<union> set l5.
           \<not> isDesired d (endpointLabel y) \<longrightarrow> key y \<noteq> k"
  shows "k \<in> set (map key (objects (deleteUndesired d l5 (deleteUndesired d l4
     (deleteUndesired d l3 (deleteUndesired d l2 (deleteUndesired d l1 c)))))))"
proof -
  have q1: "\<forall>y \<in> set l1. \<not> isDesired d (endpointLabel y) \<longrightarrow> key y \<noteq> k"
    and q2: "\<forall>y \<in> set l2. \<not> isDesired d (endpointLabel y) \<longrightarrow> key y \<noteq> k"
    and q3: "\<forall>y \<in> set l3. \<not> isDesired d (endpointLabel y) \<longrightarrow> key y \<noteq> k"
    and q4: "\<forall>y \<in> set l4. \<not> isDesired d (endpointLabel y) \<longrightarrow> key y \<noteq> k"
    and q5: "\<forall>y \<in> set l5. \<not> isDesired d (endpointLabel y) \<longrightarrow> key y \<noteq> k"
    using assms(2) by blast+
  have 1: "k \<in> set (map key (objects (deleteUndesired d l1 c)))"
    using assms(1) q1 by (rule deleteUndesired_keeps)
  have 2: "k \<in> set (map key (objects (deleteUndesired d l2 (deleteUndesired d l1 c))))"
    using 1 q2 by (rule deleteUndesired_keeps)
  have 3: "k \<in> set (map key (objects
      (deleteUndesired d l3 (deleteUndesired d l2 (deleteUndesired d l1 c)))))"
    using 2 q3 by (rule deleteUndesired_keeps)
  have 4: "k \<in> set (map key (objects (deleteUndesired d l4
      (deleteUndesired d l3 (deleteUndesired d l2 (deleteUndesired d l1 c))))))"
    using 3 q4 by (rule deleteUndesired_keeps)
  show ?thesis
    using 4 q5 by (rule deleteUndesired_keeps)
qed

lemma deleteUndesired5_removes:
  assumes nf: "noDeleteFaults c"
    and y: "y \<in> set l1 \<union> set l2 \<union> set l3 \<union> set l4 \<union> set l5"
    and u: "\<not> isDesired d (endpointLabel y)"
  shows "key y \<notin> set (map key (objects (deleteUndesired d l5 (deleteUndesired d l4
     (deleteUndesired d l3 (deleteUndesired d l2 (deleteUndesired d l1 c)))))))"
proof -
  let ?c1 = "deleteUndesired d l1 c"
  let ?c2 = "deleteUndesired d l2 ?c1"
  let ?c3 = "deleteUndesired d l3 ?c2"
  let ?c4 = "deleteUndesired d l4 ?c3"
  let ?c5 = "deleteUndesired d l5 ?c4"
  have s1: "shrinks c ?c1" and s2: "shrinks ?c1 ?c2" and s3: "shrinks ?c2 ?c3"
    and s4: "shrinks ?c3 ?c4" and s5: "shrinks ?c4 ?c5"
    by (rule deleteUndesired_shrinks)+
  have n1: "noDeleteFaults ?c1" using s1 nf by (rule shrinks_noDeleteFaults)
  have n2: "noDeleteFaults ?c2" using s2 n1 by (rule shrinks_noDeleteFaults)
  have n3: "noDeleteFaults ?c3" using s3 n2 by (rule shrinks_noDeleteFaults)
  have n4: "noDeleteFaults ?c4" using s4 n3 by (rule shrinks_noDeleteFaults)
  from y consider "y \<in> set l1" | "y \<in> set l2" | "y \<in> set l3" | "y \<in> set l4" | "y \<in> set l5"
    by blast
  then show ?thesis
  proof cases
    case 1
    from nf 1 u have "key y \<notin> set (map key (objects ?c1))" by (rule deleteUndesired_removes)
    then have "key y \<notin> set (map key (objects ?c2))" by (rule shrinks_absent [OF s2])
    then have "key y \<notin> set (map key (objects ?c3))" by (rule shrinks_absent [OF s3])
    then have "key y \<notin> set (map key (objects ?c4))" by (rule shrinks_absent [OF s4])
    then show ?thesis by (rule shrinks_absent [OF s5])
  next
    case 2
    from n1 2 u have "key y \<notin> set (map key (objects ?c2))" by (rule deleteUndesired_removes)
    then have "key y \<notin> set (map key (objects ?c3))" by (rule shrinks_absent [OF s3])
    then have "key y \<notin> set (map key (objects ?c4))" by (rule shrinks_absent [OF s4])
    then show ?thesis by (rule shrinks_absent [OF s5])
  next
    case 3
    from n2 3 u have "key y \<notin> set (map key (objects ?c3))" by (rule deleteUndesired_removes)
    then have "key y \<notin> set (map key (objects ?c4))" by (rule shrinks_absent [OF s4])
    then show ?thesis by (rule shrinks_absent [OF s5])
  next
    case 4
    from n3 4 u have "key y \<notin> set (map key (objects ?c4))" by (rule deleteUndesired_removes)
    then show ?thesis by (rule shrinks_absent [OF s5])
  next
    case 5
    from n4 5 u show ?thesis by (rule deleteUndesired_removes)
  qed
qed

section \<open>A pass on an invalid spec; convergence on an existing child\<close>

lemma SetStatusCondition_find:
  "FindStatusCondition (SetStatusCondition cs new) (cond_Type new) = Some new"
  by (induction cs) (auto simp: FindStatusCondition_def)

lemma find_map_status:
  assumes "find (samePolicy ns n) ps = Some p"
  shows "find (samePolicy ns n)
           (map (\<lambda>q. if samePolicy ns n q then q\<lparr>Status := st\<rparr> else q) ps)
         = Some (p\<lparr>Status := st\<rparr>)"
  using assms
  by (induction ps) (auto simp: samePolicy_def split: if_splits)

lemma Reconcile_invalid:
  assumes fetch: "r_GetPolicy ns n c = (Inr policy, c0)"
    and invalid: "Validate pq (Spec policy) = Some err"
  shows "Reconcile pq ns n c =
           r_StatusUpdate (setCondition (validationFailed policy err) policy)
             (c\<lparr>calls := calls c @ [GetPolicyCall ns n]\<rparr>)"
  using fetch invalid r_GetPolicy_Inr(1) [OF fetch] by (simp add: Reconcile_def)

lemma Reconcile_invalid_calls:
  assumes fetch: "r_GetPolicy ns n c = (Inr policy, c0)"
    and invalid: "Validate pq (Spec policy) = Some err"
  shows "calls (snd (Reconcile pq ns n c)) =
           calls c @ [GetPolicyCall ns n,
             StatusUpdateCall ns n (Status (setCondition (validationFailed policy err) policy))]"
    and "objects (snd (Reconcile pq ns n c)) = objects c"
proof -
  note g = r_GetPolicy_Inr [OF fetch]
  have nm: "pol_Namespace (setCondition (validationFailed policy err) policy) = ns"
    "pol_Name (setCondition (validationFailed policy err) policy) = n"
    using g(3,4) by (simp_all add: setCondition_def)
  show "calls (snd (Reconcile pq ns n c)) =
           calls c @ [GetPolicyCall ns n,
             StatusUpdateCall ns n (Status (setCondition (validationFailed policy err) policy))]"
    unfolding Reconcile_invalid [OF fetch invalid]
    by (simp add: r_StatusUpdate_def invoke_def nm)
  show "objects (snd (Reconcile pq ns n c)) = objects c"
    unfolding Reconcile_invalid [OF fetch invalid]
    by (simp add: r_StatusUpdate_store)
qed

lemma Reconcile_invalid_result:
  assumes fetch: "r_GetPolicy ns n c = (Inr policy, c0)"
    and invalid: "Validate pq (Spec policy) = Some err"
  shows "if faults c (Suc (length (calls c)))
              (StatusUpdateCall ns n (Status (setCondition (validationFailed policy err) policy)))
         then fst (Reconcile pq ns n c) = Some ApiFailure
              \<and> policies (snd (Reconcile pq ns n c)) = policies c
         else fst (Reconcile pq ns n c) = None
              \<and> find (samePolicy ns n) (policies (snd (Reconcile pq ns n c)))
                  = Some (setCondition (validationFailed policy err) policy)"
proof -
  note g = r_GetPolicy_Inr [OF fetch]
  have nm: "pol_Namespace (setCondition (validationFailed policy err) policy) = ns"
    "pol_Name (setCondition (validationFailed policy err) policy) = n"
    using g(3,4) by (simp_all add: setCondition_def)
  have st: "policy\<lparr>Status := Status (setCondition (validationFailed policy err) policy)\<rparr>
              = setCondition (validationFailed policy err) policy"
    by (simp add: setCondition_def)
  show ?thesis
    unfolding Reconcile_invalid [OF fetch invalid]
    using g(2) find_map_status [OF g(2),
        of "Status (setCondition (validationFailed policy err) policy)"]
    by (simp add: r_StatusUpdate_def invoke_def nm st)
qed

lemma find_replace:
  assumes "find (\<lambda>y. key y = K) xs = Some ex" "key x = K"
  shows "find (\<lambda>y. key y = K) (map (\<lambda>y. if key y = K then x else y) xs) = Some x"
  using assms by (induction xs) (auto split: if_splits)

lemma find_Some_mem: "find P xs = Some x \<Longrightarrow> x \<in> set xs \<and> P x"
  by (induction xs) (auto split: if_splits)

lemma stored_key: "stored c k ns n = Some ex \<Longrightarrow> key ex = (k, ns, n)"
  by (auto simp: stored_def find_Some_iff)

lemma stored_mem: "stored c k ns n = Some ex \<Longrightarrow> ex \<in> set (objects c)"
  by (auto simp: stored_def find_Some_iff)

lemma converge_existing:
  assumes ex: "existingChild c (obj_Kind d) (pol_Namespace policy) name ex"
    and k: "key (ow ex (d\<lparr>obj_Owner := Some (pol_Name policy)\<rparr>)) = key ex"
  shows "stored (snd (converge ow policy name d c)) (obj_Kind d) (pol_Namespace policy) name
           = Some (ow ex (d\<lparr>obj_Owner := Some (pol_Name policy)\<rparr>))"
    and "fst (converge ow policy name d c) = Inr name"
proof -
  let ?K = "(obj_Kind d, pol_Namespace policy, name)"
  let ?x = "ow ex (d\<lparr>obj_Owner := Some (pol_Name policy)\<rparr>)"
  from ex have ok: "scheme_ok c"
    and st: "find (\<lambda>y. key y = ?K) (objects c) = Some ex"
    and f1: "\<not> faults c (length (calls c)) (GetCall (obj_Kind d) (pol_Namespace policy) name)"
    and f2: "\<not> faults c (Suc (length (calls c)))
               (UpdateCall (obj_Kind d) (pol_Namespace policy) name)"
    by (simp_all add: existingChild_def stored_def)
  have kx: "key ?x = ?K" using k st by (auto simp: find_Some_iff)
  then have parts: "obj_Kind ?x = obj_Kind d" "obj_Namespace ?x = pol_Namespace policy"
    "obj_Name ?x = name"
    by (simp_all add: key_def)
  have mem: "?K \<in> key ` set (objects c)" using find_Some_mem [OF st] by force
  have conv: "converge ow policy name d c =
      (Inr name, c\<lparr>calls := calls c @ [GetCall (obj_Kind d) (pol_Namespace policy) name,
                                UpdateCall (obj_Kind d) (pol_Namespace policy) name],
                 objects := map (\<lambda>y. if key y = ?K then ?x else y) (objects c)\<rparr>)"
    using ok st f1 f2 mem
    by (simp add: converge_def SetControllerReference_def r_Get_def r_Update_def invoke_def
        parts kx)
  show "fst (converge ow policy name d c) = Inr name" by (simp add: conv)
  show "stored (snd (converge ow policy name d c)) (obj_Kind d) (pol_Namespace policy) name
           = Some ?x"
    using find_replace [OF st kx] by (simp add: conv stored_def)
qed

lemma overwriteSpec_key [simp]: "key (overwriteSpec ex d) = key ex"
  by (simp add: overwriteSpec_def key_def)

lemma overwriteService_key [simp]: "key (overwriteService ex d) = key ex"
  by (simp add: overwriteService_def key_def)

lemma reconcileDeployment_existing:
  assumes "existingChild c Deployment (pol_Namespace policy) (endpointResourceName policy endpoint) ex"
    and "buildDeployment pq policy endpoint = Inr desired"
  shows "stored (snd (reconcileDeployment pq policy endpoint c)) Deployment
           (pol_Namespace policy) (endpointResourceName policy endpoint)
         = Some (ex\<lparr>obj_Spec := obj_Spec desired, obj_Labels := obj_Labels desired\<rparr>)"
proof -
  have kd: "obj_Kind desired = Deployment"
    using assms(2) by (auto simp: buildDeployment_def Let_def split: if_splits)
  from assms(1) kd have ex': "existingChild c (obj_Kind desired) (pol_Namespace policy)
      (endpointResourceName policy endpoint) ex" by simp
  from converge_existing(1) [OF ex', of overwriteSpec, OF overwriteSpec_key]
  show ?thesis
    by (simp add: kd assms(2) reconcileDeployment_def overwriteSpec_def)
qed

lemma reconcileHTTPRoute_existing:
  assumes "existingChild c HTTPRoute (pol_Namespace policy) (endpointResourceName policy endpoint) ex"
  shows "stored (snd (reconcileHTTPRoute policy endpoint c)) HTTPRoute
           (pol_Namespace policy) (endpointResourceName policy endpoint)
         = Some (ex\<lparr>obj_Spec := obj_Spec (buildHTTPRoute policy endpoint),
                     obj_Labels := obj_Labels (buildHTTPRoute policy endpoint)\<rparr>)"
proof -
  have kd: "obj_Kind (buildHTTPRoute policy endpoint) = HTTPRoute"
    by (simp add: buildHTTPRoute_def Let_def)
  from assms kd have ex': "existingChild c (obj_Kind (buildHTTPRoute policy endpoint))
      (pol_Namespace policy) (endpointResourceName policy endpoint) ex" by simp
  from converge_existing(1) [OF ex', of overwriteSpec, OF overwriteSpec_key]
  show ?thesis
    by (simp add: kd reconcileHTTPRoute_def overwriteSpec_def)
qed

lemma reconcileGRPCRoute_existing:
  assumes "existingChild c GRPCRoute (pol_Namespace policy) (endpointResourceName policy endpoint) ex"
  shows "stored (snd (reconcileGRPCRoute policy endpoint c)) GRPCRoute
           (pol_Namespace policy) (endpointResourceName policy endpoint)
         = Some (ex\<lparr>obj_Spec := obj_Spec (buildGRPCRoute policy endpoint),
                     obj_Labels := obj_Labels (buildGRPCRoute policy endpoint)\<rparr>)"
proof -
  have kd: "obj_Kind (buildGRPCRoute policy endpoint) = GRPCRoute"
    by (simp add: buildGRPCRoute_def Let_def)
  from assms kd have ex': "existingChild c (obj_Kind (buildGRPCRoute policy endpoint))
      (pol_Namespace policy) (endpointResourceName policy endpoint) ex" by simp
  from converge_existing(1) [OF ex', of overwriteSpec, OF overwriteSpec_key]
  show ?thesis
    by (simp add: kd reconcileGRPCRoute_def overwriteSpec_def)
qed

lemma reconcileHPA_existing:
  assumes "existingChild c HorizontalPodAutoscaler (pol_Namespace policy)
             (endpointResourceName policy endpoint) ex"
    and "ep_HPA endpoint = Some hpa"
  shows "stored (snd (reconcileHPA policy endpoint c)) HorizontalPodAutoscaler
           (pol_Namespace policy) (endpointResourceName policy endpoint)
         = Some (ex\<lparr>obj_Spec := obj_Spec (buildHPA policy endpoint hpa),
                     obj_Labels := obj_Labels (buildHPA policy endpoint hpa)\<rparr>)"
proof -
  have kd: "obj_Kind (buildHPA policy endpoint hpa) = HorizontalPodAutoscaler"
    by (simp add: buildHPA_def Let_def)
  from assms(1) kd have ex': "existingChild c (obj_Kind (buildHPA policy endpoint hpa))
      (pol_Namespace policy) (endpointResourceName policy endpoint) ex" by simp
  obtain r c' where cv: "converge overwriteSpec policy (endpointResourceName policy endpoint)
      (buildHPA policy endpoint hpa) c = (r, c')"
    by (cases "converge overwriteSpec policy (endpointResourceName policy endpoint)
      (buildHPA policy endpoint hpa) c")
  from converge_existing [OF ex', of overwriteSpec, OF overwriteSpec_key] cv
  have "stored c' HorizontalPodAutoscaler (pol_Namespace policy)
          (endpointResourceName policy endpoint)
        = Some (ex\<lparr>obj_Spec := obj_Spec (buildHPA policy endpoint hpa),
                     obj_Labels := obj_Labels (buildHPA policy endpoint hpa)\<rparr>)"
    by (simp add: kd overwriteSpec_def)
  then show ?thesis
    by (cases r) (simp_all add: assms(2) reconcileHPA_def cv)
qed

lemma reconcileService_existing:
  assumes "existingChild c Service (pol_Namespace policy) (endpointServiceName policy endpoint) ex"
    and "obj_Spec ex = SvcSpec s"
  shows "stored (snd (reconcileService policy endpoint c)) Service
           (pol_Namespace policy) (endpointServiceName policy endpoint)
         = Some (ex\<lparr>obj_Spec := SvcSpec (s\<lparr>
                       svc_Ports := [\<lparr>sp_Name = ''http'',
                          sp_Port = (if app_Port (AppRef (Spec policy)) = 0 then 80
                                     else app_Port (AppRef (Spec policy))),
                          sp_TargetPort = (if app_ContainerPort (AppRef (Spec policy)) = 0 then 8080
                                           else app_ContainerPort (AppRef (Spec policy))),
                          sp_Protocol = ''TCP''\<rparr>],
                       svc_Selector := generateLabels policy endpoint\<rparr>),
                     obj_Labels := generateLabels policy endpoint\<rparr>)"
proof -
  have kd: "obj_Kind (buildService policy endpoint) = Service"
    by (simp add: buildService_def Let_def)
  from assms(1) kd have ex': "existingChild c (obj_Kind (buildService policy endpoint))
      (pol_Namespace policy) (endpointServiceName policy endpoint) ex" by simp
  from converge_existing(1) [OF ex', of overwriteService, OF overwriteService_key]
  have "stored (snd (reconcileService policy endpoint c)) Service
           (pol_Namespace policy) (endpointServiceName policy endpoint)
         = Some (overwriteService ex
                  ((buildService policy endpoint)\<lparr>obj_Owner := Some (pol_Name policy)\<rparr>))"
    by (simp add: kd reconcileService_def)
  then show ?thesis
    by (simp add: overwriteService_def assms(2) buildService_def Let_def)
qed

end
